theory Spec2Isabelle
  imports Main "HOL-Library.Sublist"
begin

section \<open>Feature cross: hour of week (chapter 3 notebook)\<close>

text \<open>
  The snippet
  \<^verbatim>\<open>
  df = pd.DataFrame({"day": [1, 2], "hour": [10, 12]})
  df["hour_of_week"] = df["day"] * 24 + df["hour"]
  \<close>
  works on pandas columns. A column built from Python integers that fit 64 bits has
  dtype int64, and the elementwise \<open>*\<close> and \<open>+\<close> of such columns wrap around
  modulo \<open>2 ^ 64\<close> without an error. The elements are modelled as \<open>int\<close> with the
  wrap-around written out.
\<close>

definition int64_min :: int where
  "int64_min = - (2 ^ 63)"

definition int64_max :: int where
  "int64_max = 2 ^ 63 - 1"

definition is_int64 :: "int \<Rightarrow> bool" where
  "is_int64 x = (int64_min \<le> x \<and> x \<le> int64_max)"

definition int64_wrap :: "int \<Rightarrow> int" where
  "int64_wrap x = (x + 2 ^ 63) mod 2 ^ 64 - 2 ^ 63"

definition int64_mul :: "int \<Rightarrow> int \<Rightarrow> int" where
  "int64_mul a b = int64_wrap (a * b)"

definition int64_add :: "int \<Rightarrow> int \<Rightarrow> int" where
  "int64_add a b = int64_wrap (a + b)"

definition hour_of_week :: "int \<Rightarrow> int \<Rightarrow> int" where
  "hour_of_week day hour = int64_add (int64_mul day 24) hour"

text \<open>The column assignment: one value per row, rows aligned by position.\<close>

definition hour_of_week_column :: "(int \<times> int) list \<Rightarrow> int list" where
  "hour_of_week_column rows = map (\<lambda>(day, hour). hour_of_week day hour) rows"

section \<open>Python exceptions and sequencing\<close>

text \<open>
  None of the snippets has a \<open>try\<close> statement, so an exception raised anywhere ends the
  enclosing function or cell. Exceptions are values: \<open>NameError\<close> is what the interpreter
  raises for an unbound name, \<open>Raised e\<close> is an exception \<open>e\<close> coming out of a library
  call.
\<close>

datatype 'e py_exn = NameError string | Raised 'e

text \<open>
  A library call may read and change state the snippet does not see (the random number
  generator behind \<open>train_test_split\<close> and \<open>random_crop\<close>, a fitted estimator, a
  file). That state is the world \<open>'w\<close>; a computation takes it and returns either an
  exception or a value, with the world it leaves behind.
\<close>

type_synonym ('a, 'e, 'w) run = "'w \<Rightarrow> ('e + 'a) \<times> 'w"

definition and_then :: "('a, 'e, 'w) run \<Rightarrow> ('a \<Rightarrow> ('b, 'e, 'w) run) \<Rightarrow> ('b, 'e, 'w) run" where
  "and_then m f w = (case m w of (Inl e, w') \<Rightarrow> (Inl e, w') | (Inr a, w') \<Rightarrow> f a w')"

definition raises :: "('a, 'e, 'w) run \<Rightarrow> 'e \<Rightarrow> 'w \<Rightarrow> 'w \<Rightarrow> bool" where
  "raises m e w w' = (m w = (Inl e, w'))"

definition returns :: "('a, 'e, 'w) run \<Rightarrow> 'a \<Rightarrow> 'w \<Rightarrow> 'w \<Rightarrow> bool" where
  "returns m a w w' = (m w = (Inr a, w'))"

section \<open>Data cleaning (chapter 3 notebook)\<close>

text \<open>
  \<^verbatim>\<open>
  df = pd.DataFrame({"timestamp": ["00:00", "12:00", "00:00"]})
  df_cleaned = df[df["timestamp"] != "00:00"]
  \<close>
  A frame is the list of its rows in order; a row carries its index label and its
  timestamp. Frames are objects: a name of the notebook's namespace holds the address of
  a frame, and the heap maps each address to the frame stored there. Addresses are handed
  out in order, so every address from \<open>next_addr\<close> on is unused. The boolean column
  built on the way is a temporary that no name holds; it is a value here. \<open>pd\<close> is
  taken as imported, as an earlier snippet of the notebook does.
\<close>

datatype pandas_error = IndexingError

record row =
  label :: int
  timestamp :: string

type_synonym frame = "row list"

type_synonym addr = nat

record ch3_state =
  df :: "addr option"
  df_cleaned :: "addr option"
  heap :: "addr \<Rightarrow> frame"
  next_addr :: addr

definition alloc :: "frame \<Rightarrow> ch3_state \<Rightarrow> addr \<times> ch3_state" where
  "alloc f st =
     (next_addr st, st\<lparr>heap := (heap st)(next_addr st := f), next_addr := Suc (next_addr st)\<rparr>)"

text \<open>\<open>pd.DataFrame({"timestamp": stamps})\<close>: a new frame, its rows labelled from 0.\<close>

definition new_frame :: "string list \<Rightarrow> frame" where
  "new_frame stamps = map (\<lambda>(i, s). \<lparr>label = int i, timestamp = s\<rparr>) (enumerate 0 stamps)"

text \<open>\<open>df["timestamp"] != "00:00"\<close>: a boolean column with the labels of the frame.\<close>

definition series_ne :: "frame \<Rightarrow> string \<Rightarrow> (int \<times> bool) list" where
  "series_ne f s = map (\<lambda>r. (label r, timestamp r \<noteq> s)) f"

text \<open>
  \<open>df[key]\<close> with a boolean column as key keeps the rows whose entry is true and builds
  a new frame. A key carrying the labels of the frame is used position by position; pandas
  realigns or refuses any other key, which the snippet never builds, and the model refuses
  it.
\<close>

definition getitem_mask :: "frame \<Rightarrow> (int \<times> bool) list \<Rightarrow> pandas_error + frame" where
  "getitem_mask f key =
     (if map fst key = map label f
      then Inr (map fst (filter (\<lambda>(r, b). b) (zip f (map snd key))))
      else Inl IndexingError)"

definition assign_df :: "string list \<Rightarrow> ch3_state \<Rightarrow> pandas_error py_exn + ch3_state" where
  "assign_df stamps st = (case alloc (new_frame stamps) st of (a, st') \<Rightarrow> Inr (st'\<lparr>df := Some a\<rparr>))"

definition assign_df_cleaned :: "ch3_state \<Rightarrow> pandas_error py_exn + ch3_state" where
  "assign_df_cleaned st =
     (case df st of
        None \<Rightarrow> Inl (NameError ''df'')
      | Some a \<Rightarrow>
          (case getitem_mask (heap st a) (series_ne (heap st a) ''00:00'') of
             Inl e \<Rightarrow> Inl (Raised e)
           | Inr g \<Rightarrow> (case alloc g st of (b, st') \<Rightarrow> Inr (st'\<lparr>df_cleaned := Some b\<rparr>))))"

definition data_cleaning_cell :: "ch3_state \<Rightarrow> pandas_error py_exn + ch3_state" where
  "data_cleaning_cell st =
     (case assign_df [''00:00'', ''12:00'', ''00:00''] st of
        Inl e \<Rightarrow> Inl e
      | Inr st' \<Rightarrow> assign_df_cleaned st')"

text \<open>A notebook that has run nothing yet.\<close>

definition fresh_state :: ch3_state where
  "fresh_state = \<lparr>df = None, df_cleaned = None, heap = (\<lambda>a. []), next_addr = 0\<rparr>"

section \<open>Labeling functions (chapter 5 notebook)\<close>

text \<open>
  \<^verbatim>\<open>
  @labeling_function()
  def lf_contains_my(x):
      return 1 if "my" in x.text.lower() else -1

  @labeling_function()
  def lf_short_comment(x):
      return 0 if len(x.text.split()) < 5 else -1
  \<close>
  The decorator wraps the function in an object that, when called on a data point, calls
  the function on it. A data point is an object with a \<open>text\<close> attribute holding a
  string; the field is named \<open>text_attr\<close> here. A Python string is a sequence of Unicode
  code points, of any value: a list of natural numbers. \<open>code_points\<close> writes a literal
  of the source as such a list.
\<close>

type_synonym py_str = "nat list"

definition code_points :: "string \<Rightarrow> py_str" where
  "code_points s = map of_char s"

record data_point =
  text_attr :: py_str

text \<open>
  \<open>str.lower()\<close> is a builtin of the interpreter; the Unicode case table it applies is
  not part of the repository, and the result is not a character by character map (it can
  be longer than its argument, and a capital sigma is lowered by its position in the
  word). The builtin is therefore a parameter \<open>lower\<close> of \<open>lf_contains_my\<close>. On a
  string of ASCII code points it is known: capitals A to Z move to a to z and nothing else
  changes, which is \<open>lower_ascii\<close>.
\<close>

definition ascii_lower :: "nat \<Rightarrow> nat" where
  "ascii_lower c = (if 65 \<le> c \<and> c \<le> 90 then c + 32 else c)"

definition lower_ascii :: "py_str \<Rightarrow> py_str" where
  "lower_ascii s = map ascii_lower s"

definition is_ascii :: "py_str \<Rightarrow> bool" where
  "is_ascii s = list_all (\<lambda>c. c < 128) s"

text \<open>
  Whitespace for \<open>str.split()\<close>, over all of Unicode: tab, line feed, vertical tab, form
  feed, carriage return (9 to 13), the four separators 28 to 31, space (32), next line
  (133), no-break space (160), ogham space mark (U+1680), the spaces U+2000 to U+200A,
  line and paragraph separator (U+2028, U+2029), narrow no-break space (U+202F), medium
  mathematical space (U+205F) and ideographic space (U+3000).
\<close>

definition is_space :: "nat \<Rightarrow> bool" where
  "is_space n =
     ((9 \<le> n \<and> n \<le> 13) \<or> (28 \<le> n \<and> n \<le> 32) \<or> n = 133 \<or> n = 160 \<or> n = 5760
      \<or> (8192 \<le> n \<and> n \<le> 8202) \<or> n = 8232 \<or> n = 8233 \<or> n = 8239 \<or> n = 8287
      \<or> n = 12288)"

fun startswith :: "py_str \<Rightarrow> py_str \<Rightarrow> bool" where
  "startswith s [] = True"
| "startswith [] (p # ps) = False"
| "startswith (c # cs) (p # ps) = (c = p \<and> startswith cs ps)"

text \<open>\<open>sub in s\<close>: the substring test, trying every start position from the left.\<close>

fun str_contains :: "py_str \<Rightarrow> py_str \<Rightarrow> bool" where
  "str_contains [] sub = (sub = [])"
| "str_contains (c # cs) sub = (startswith (c # cs) sub \<or> str_contains cs sub)"

text \<open>
  \<open>s.split()\<close>: skip whitespace, take the longest run of other characters as a token,
  and go on after it; no token is empty.
\<close>

function str_split :: "py_str \<Rightarrow> py_str list" where
  "str_split s =
     (case dropWhile is_space s of
        [] \<Rightarrow> []
      | c # cs \<Rightarrow> takeWhile (\<lambda>d. \<not> is_space d) (c # cs)
                 # str_split (dropWhile (\<lambda>d. \<not> is_space d) cs))"
  by pat_completeness auto
termination
proof (relation "measure length")
  show "wf (measure length)" by simp
next
  fix s :: py_str and c cs
  assume "dropWhile is_space s = c # cs"
  then have "length (c # cs) \<le> length s"
    by (metis length_dropWhile_le)
  moreover have "length (dropWhile (\<lambda>d. \<not> is_space d) cs) \<le> length cs"
    by (rule length_dropWhile_le)
  ultimately show "(dropWhile (\<lambda>d. \<not> is_space d) cs, s) \<in> measure length"
    by simp
qed

declare str_split.simps [simp del]

definition lf_contains_my :: "(py_str \<Rightarrow> py_str) \<Rightarrow> data_point \<Rightarrow> int" where
  "lf_contains_my lower x =
     (if str_contains (lower (text_attr x)) (code_points ''my'') then 1 else - 1)"

definition lf_short_comment :: "data_point \<Rightarrow> int" where
  "lf_short_comment x = (if length (str_split (text_attr x)) < 5 then 0 else - 1)"

text \<open>
  The tokens of a string in the words of the specification: a token starts at every
  position that holds a character other than whitespace and is the first position or
  follows whitespace. The number of whitespace-separated tokens is the number of such
  positions.
\<close>

definition token_starts :: "py_str \<Rightarrow> nat set" where
  "token_starts s =
     {i. i < length s \<and> \<not> is_space (s ! i) \<and> (i = 0 \<or> is_space (s ! (i - 1)))}"

definition token_count :: "py_str \<Rightarrow> nat" where
  "token_count s = card (token_starts s)"

text \<open>The same count by one pass over the string, and the set it counts.\<close>

fun starts :: "bool \<Rightarrow> py_str \<Rightarrow> nat" where
  "starts p [] = 0"
| "starts p (c # cs) = (if \<not> is_space c \<and> p then 1 else 0) + starts (is_space c) cs"

definition starts_set :: "bool \<Rightarrow> py_str \<Rightarrow> nat set" where
  "starts_set p s =
     {i. i < length s \<and> \<not> is_space (s ! i) \<and> (if i = 0 then p else is_space (s ! (i - 1)))}"

section \<open>Library calls made by the snippets\<close>

text \<open>
  The libraries are not part of the repository. Each function the snippets call is a
  parameter: a field of a record of the library, taking the arguments the snippet passes
  and running in the world. \<open>'v\<close> is the type of the objects the libraries hand out
  (frames, arrays, estimators, tensors, statistics) and \<open>'e\<close> the type of the
  exceptions they raise. A float literal is passed as its text.
\<close>

record ('v, 'e, 'w) sklearn_api =
  train_test_split :: "'v \<Rightarrow> 'v \<Rightarrow> 'v \<Rightarrow> string \<Rightarrow> ('v \<times> 'v \<times> 'v \<times> 'v, 'e, 'w) run"
  MinMaxScaler :: "('v, 'e, 'w) run"
  fit_transform :: "'v \<Rightarrow> 'v \<Rightarrow> ('v, 'e, 'w) run"
  chi2 :: "'v"
  SelectKBest :: "'v \<Rightarrow> int \<Rightarrow> ('v, 'e, 'w) run"
  fit :: "'v \<Rightarrow> 'v \<Rightarrow> 'v \<Rightarrow> ('v, 'e, 'w) run"
  get_support :: "'v \<Rightarrow> ('v, 'e, 'w) run"
  columns :: "'v \<Rightarrow> ('v, 'e, 'w) run"
  getitem :: "'v \<Rightarrow> 'v \<Rightarrow> ('v, 'e, 'w) run"

text \<open>
  \<^verbatim>\<open>
  def univariate_selection(X, y):
      X_train, _, y_train, _ = train_test_split(X, y, stratify=y, test_size=0.2)
      X_scaled = MinMaxScaler().fit_transform(X_train)
      selector = SelectKBest(score_func=chi2, k=10)
      selector.fit(X_scaled, y_train)
      return X.columns[selector.get_support()]
  \<close>
  In the last line Python evaluates \<open>X.columns\<close> before the index expression.
\<close>

definition univariate_selection :: "('v, 'e, 'w) sklearn_api \<Rightarrow> 'v \<Rightarrow> 'v \<Rightarrow> ('v, 'e, 'w) run" where
  "univariate_selection L X y =
     and_then (train_test_split L X y y ''0.2'') (\<lambda>(X_train, _, y_train, _).
     and_then (MinMaxScaler L) (\<lambda>scaler.
     and_then (fit_transform L scaler X_train) (\<lambda>X_scaled.
     and_then (SelectKBest L (chi2 L) 10) (\<lambda>selector.
     and_then (fit L selector X_scaled y_train) (\<lambda>_.
     and_then (columns L X) (\<lambda>cols.
     and_then (get_support L selector) (\<lambda>support.
     getitem L cols support)))))))"

record ('v, 'e, 'w) tf_image_api =
  resize_with_crop_or_pad :: "'v \<Rightarrow> int \<Rightarrow> int \<Rightarrow> ('v, 'e, 'w) run"
  random_crop :: "'v \<Rightarrow> int list \<Rightarrow> ('v, 'e, 'w) run"
  random_flip_left_right :: "'v \<Rightarrow> ('v, 'e, 'w) run"

text \<open>
  \<^verbatim>\<open>
  def augment(x, height, width, num_channels):
      x = tf.image.resize_with_crop_or_pad(x, height + 8, width + 8)
      x = tf.image.random_crop(x, [height, width, num_channels])
      x = tf.image.random_flip_left_right(x)
      return x
  \<close>
  The sizes are Python integers, which do not overflow.
\<close>

definition augment :: "('v, 'e, 'w) tf_image_api \<Rightarrow> 'v \<Rightarrow> int \<Rightarrow> int \<Rightarrow> int \<Rightarrow> ('v, 'e, 'w) run" where
  "augment T x height width num_channels =
     and_then (resize_with_crop_or_pad T x (height + 8) (width + 8)) (\<lambda>xa.
     and_then (random_crop T xa [height, width, num_channels]) (\<lambda>xb.
     random_flip_left_right T xb))"

text \<open>
  The statistics cells of the chapter 2 notebook run at the top level of the notebook:
  they bind and read names of its namespace, here \<open>tfdv\<close> (bound by the import) and
  \<open>stats\<close>. A cell is a computation on the namespace together with the world.
  \<^verbatim>\<open>
  import tensorflow_data_validation as tfdv
  stats = tfdv.generate_statistics_from_csv(data_location='your_data.csv', delimiter=',')
  \<close>
  \<^verbatim>\<open>
  stats = tfdv.generate_statistics_from_tfrecord(data_location='your_data.tfrecord')
  tfdv.visualize_statistics(stats)
  \<close>
\<close>

record ('v, 'e, 'w) tfdv_api =
  import_tfdv :: "(unit, 'e, 'w) run"
  generate_statistics_from_csv :: "string \<Rightarrow> string \<Rightarrow> ('v, 'e, 'w) run"
  generate_statistics_from_tfrecord :: "string \<Rightarrow> ('v, 'e, 'w) run"
  visualize_statistics :: "'v \<Rightarrow> (unit, 'e, 'w) run"

record 'v ch2_namespace =
  tfdv :: bool
  stats :: "'v option"

definition lib_call :: "('a, 'e, 'w) run \<Rightarrow> ('a, 'e py_exn, 'n \<times> 'w) run" where
  "lib_call m = (\<lambda>(ns, w).
     case m w of (Inl e, w') \<Rightarrow> (Inl (Raised e), (ns, w')) | (Inr a, w') \<Rightarrow> (Inr a, (ns, w')))"

definition load_tfdv :: "(unit, 'e py_exn, 'v ch2_namespace \<times> 'w) run" where
  "load_tfdv = (\<lambda>(ns, w).
     if tfdv ns then (Inr (), (ns, w)) else (Inl (NameError ''tfdv''), (ns, w)))"

definition store_tfdv :: "(unit, 'e py_exn, 'v ch2_namespace \<times> 'w) run" where
  "store_tfdv = (\<lambda>(ns, w). (Inr (), (ns\<lparr>tfdv := True\<rparr>, w)))"

definition load_stats :: "('v, 'e py_exn, 'v ch2_namespace \<times> 'w) run" where
  "load_stats = (\<lambda>(ns, w).
     case stats ns of None \<Rightarrow> (Inl (NameError ''stats''), (ns, w)) | Some s \<Rightarrow> (Inr s, (ns, w)))"

definition store_stats :: "'v \<Rightarrow> (unit, 'e py_exn, 'v ch2_namespace \<times> 'w) run" where
  "store_stats s = (\<lambda>(ns, w). (Inr (), (ns\<lparr>stats := Some s\<rparr>, w)))"

definition stats_csv_cell ::
  "('v, 'e, 'w) tfdv_api \<Rightarrow> (unit, 'e py_exn, 'v ch2_namespace \<times> 'w) run" where
  "stats_csv_cell T =
     and_then (lib_call (import_tfdv T)) (\<lambda>_.
     and_then store_tfdv (\<lambda>_.
     and_then load_tfdv (\<lambda>_.
     and_then (lib_call (generate_statistics_from_csv T ''your_data.csv'' '','')) (\<lambda>s.
     store_stats s))))"

definition stats_tfrecord_cell ::
  "('v, 'e, 'w) tfdv_api \<Rightarrow> (unit, 'e py_exn, 'v ch2_namespace \<times> 'w) run" where
  "stats_tfrecord_cell T =
     and_then load_tfdv (\<lambda>_.
     and_then (lib_call (generate_statistics_from_tfrecord T ''your_data.tfrecord'')) (\<lambda>s.
     and_then (store_stats s) (\<lambda>_.
     and_then load_tfdv (\<lambda>_.
     and_then load_stats (\<lambda>s'.
     lib_call (visualize_statistics T s'))))))"

text \<open>
  The last code cell of chapter 2 reads \<open>stats\<close> and walks into the statistics
  object before printing:
  \<^verbatim>\<open>
  print(stats.datasets[0].features[0].string_stats.rank_histogram)
  \<close>
  Attribute access, indexing and printing are operations of the object and of the
  interpreter's output; each may raise.
\<close>

record ('v, 'e, 'w) object_api =
  getattr :: "'v \<Rightarrow> string \<Rightarrow> ('v, 'e, 'w) run"
  index_int :: "'v \<Rightarrow> int \<Rightarrow> ('v, 'e, 'w) run"
  print_value :: "'v \<Rightarrow> (unit, 'e, 'w) run"

definition histogram_cell ::
  "('v, 'e, 'w) object_api \<Rightarrow> (unit, 'e py_exn, 'v ch2_namespace \<times> 'w) run" where
  "histogram_cell P =
     and_then load_stats (\<lambda>s.
     and_then (lib_call (getattr P s ''datasets'')) (\<lambda>datasets.
     and_then (lib_call (index_int P datasets 0)) (\<lambda>dataset.
     and_then (lib_call (getattr P dataset ''features'')) (\<lambda>features.
     and_then (lib_call (index_int P features 0)) (\<lambda>feature.
     and_then (lib_call (getattr P feature ''string_stats'')) (\<lambda>string_stats.
     and_then (lib_call (getattr P string_stats ''rank_histogram'')) (\<lambda>rank_histogram.
     lib_call (print_value P rank_histogram))))))))"

section \<open>The code of the notebooks as syntax trees\<close>

text \<open>
  Some properties of the notebooks are about the text of their code: which cell binds a
  name and which reads it, whether a cell contains a conditional, an arithmetic
  expression, a comparison or an exception handler. For these the code cells of the
  chapter 2 and chapter 5 notebooks and the fenced Python snippets of the chapter 3 and
  chapter 4 notebooks are written down as syntax trees, statement by statement, with the
  node names of Python's \<open>ast\<close> module. A keyword argument is a \<open>Keyword\<close> node among
  the arguments of its call; a slice holds its lower and upper bound, each a list that is
  empty when the bound is left out; a signed number such as \<open>-1\<close> is one literal; a
  float literal keeps its text. \<open>AnnAssign\<close> is an annotated name without a value
  (target and annotation). \<open>IfStmt\<close>, \<open>WhileStmt\<close>, \<open>ForStmt\<close>, \<open>TryStmt\<close> (body
  and handlers) and \<open>WithStmt\<close> (context expression, target if any, body) are the
  compound statements of Python. \<open>Shell\<close> is a line that starts with an exclamation
  mark: IPython hands it to the system shell, which runs it as a child process.
\<close>

datatype binop = OpAdd | OpSub | OpMult

datatype cmpop = CmpLt | CmpGt | CmpNotEq | CmpIn

datatype expr =
    Name string
  | IntLit int
  | FloatLit string
  | StrLit string
  | BoolLit bool
  | Ellipsis
  | Slice "expr list" "expr list"
  | Attribute expr string
  | Call expr "expr list"
  | Keyword string expr
  | Subscript expr expr
  | Tuple "expr list"
  | ListLit "expr list"
  | DictLit "expr list" "expr list"
  | BinOp expr binop expr
  | Compare expr cmpop expr
  | IfExp expr expr expr
  | Await expr
  | Yield expr

datatype stmt =
    Import string string
  | ImportFrom string "string list"
  | Assign expr expr
  | AnnAssign expr expr
  | ExprStmt expr
  | Return expr
  | FunctionDef string "expr list" "string list" "stmt list"
  | IfStmt expr "stmt list" "stmt list"
  | WhileStmt expr "stmt list"
  | ForStmt expr expr "stmt list"
  | TryStmt "stmt list" "stmt list"
  | WithStmt expr "expr list" "stmt list"
  | Shell string

text \<open>A cell is its statements in order; a notebook is its code cells in order.\<close>

type_synonym cell = "stmt list"
type_synonym notebook = "cell list"

text \<open>
  The constructs a cell can contain beyond calls, literals and assignments: a conditional
  (\<open>if\<close> statement or conditional expression), an arithmetic operation, a comparison
  (\<open>Predicate\<close>), a loop, an exception handler (a \<open>try\<close> statement), a point
  where execution is suspended (\<open>await\<close>, \<open>yield\<close>) and a block that acquires and
  releases a resource (a \<open>with\<close> statement).
\<close>

datatype construct =
  Conditional | Arithmetic | Predicate | Loop | Handler | Suspension | Resource

text \<open>The names an expression reads, from left to right.\<close>

fun expr_names :: "expr \<Rightarrow> string list" where
  "expr_names (Name n) = [n]"
| "expr_names (IntLit _) = []"
| "expr_names (FloatLit _) = []"
| "expr_names (StrLit _) = []"
| "expr_names Ellipsis = []"
| "expr_names (BoolLit _) = []"
| "expr_names (Slice lo hi) = concat (map expr_names lo) @ concat (map expr_names hi)"
| "expr_names (Attribute e _) = expr_names e"
| "expr_names (Call f args) = expr_names f @ concat (map expr_names args)"
| "expr_names (Keyword _ e) = expr_names e"
| "expr_names (Subscript e i) = expr_names e @ expr_names i"
| "expr_names (Tuple es) = concat (map expr_names es)"
| "expr_names (ListLit es) = concat (map expr_names es)"
| "expr_names (DictLit ks vs) = concat (map expr_names ks) @ concat (map expr_names vs)"
| "expr_names (BinOp a _ b) = expr_names a @ expr_names b"
| "expr_names (Compare a _ b) = expr_names a @ expr_names b"
| "expr_names (IfExp t a b) = expr_names t @ expr_names a @ expr_names b"
| "expr_names (Await e) = expr_names e"
| "expr_names (Yield e) = expr_names e"

text \<open>The constructs in an expression, outermost first.\<close>

fun expr_constructs :: "expr \<Rightarrow> construct list" where
  "expr_constructs (Name _) = []"
| "expr_constructs (IntLit _) = []"
| "expr_constructs (FloatLit _) = []"
| "expr_constructs (StrLit _) = []"
| "expr_constructs Ellipsis = []"
| "expr_constructs (BoolLit _) = []"
| "expr_constructs (Slice lo hi) = concat (map expr_constructs lo) @ concat (map expr_constructs hi)"
| "expr_constructs (Attribute e _) = expr_constructs e"
| "expr_constructs (Call f args) = expr_constructs f @ concat (map expr_constructs args)"
| "expr_constructs (Keyword _ e) = expr_constructs e"
| "expr_constructs (Subscript e i) = expr_constructs e @ expr_constructs i"
| "expr_constructs (Tuple es) = concat (map expr_constructs es)"
| "expr_constructs (ListLit es) = concat (map expr_constructs es)"
| "expr_constructs (DictLit ks vs) =
     concat (map expr_constructs ks) @ concat (map expr_constructs vs)"
| "expr_constructs (BinOp a _ b) = Arithmetic # expr_constructs a @ expr_constructs b"
| "expr_constructs (Compare a _ b) = Predicate # expr_constructs a @ expr_constructs b"
| "expr_constructs (IfExp t a b) =
     Conditional # expr_constructs t @ expr_constructs a @ expr_constructs b"
| "expr_constructs (Await e) = Suspension # expr_constructs e"
| "expr_constructs (Yield e) = Suspension # expr_constructs e"

text \<open>
  The functions an expression calls, each by its own name: the name itself for
  \<open>f(...)\<close>, the attribute for \<open>obj.f(...)\<close>.
\<close>

fun expr_calls :: "expr \<Rightarrow> string list" where
  "expr_calls (Name _) = []"
| "expr_calls (IntLit _) = []"
| "expr_calls (FloatLit _) = []"
| "expr_calls (StrLit _) = []"
| "expr_calls Ellipsis = []"
| "expr_calls (BoolLit _) = []"
| "expr_calls (Slice lo hi) = concat (map expr_calls lo) @ concat (map expr_calls hi)"
| "expr_calls (Attribute e _) = expr_calls e"
| "expr_calls (Call f args) =
     (case f of Name n \<Rightarrow> [n] | Attribute _ n \<Rightarrow> [n] | _ \<Rightarrow> [])
     @ expr_calls f @ concat (map expr_calls args)"
| "expr_calls (Keyword _ e) = expr_calls e"
| "expr_calls (Subscript e i) = expr_calls e @ expr_calls i"
| "expr_calls (Tuple es) = concat (map expr_calls es)"
| "expr_calls (ListLit es) = concat (map expr_calls es)"
| "expr_calls (DictLit ks vs) = concat (map expr_calls ks) @ concat (map expr_calls vs)"
| "expr_calls (BinOp a _ b) = expr_calls a @ expr_calls b"
| "expr_calls (Compare a _ b) = expr_calls a @ expr_calls b"
| "expr_calls (IfExp t a b) = expr_calls t @ expr_calls a @ expr_calls b"
| "expr_calls (Await e) = expr_calls e"
| "expr_calls (Yield e) = expr_calls e"

text \<open>
  An assignment to a name or to a tuple of names binds them. An assignment to a subscript
  such as \<open>df["hour_of_week"] = ...\<close> binds no name; it reads the names in its
  target.
\<close>

fun target_binds :: "expr \<Rightarrow> string list" where
  "target_binds (Name n) = [n]"
| "target_binds (Tuple es) = concat (map target_binds es)"
| "target_binds (ListLit es) = concat (map target_binds es)"
| "target_binds _ = []"

fun target_reads :: "expr \<Rightarrow> string list" where
  "target_reads (Name n) = []"
| "target_reads (Tuple es) = concat (map target_reads es)"
| "target_reads (ListLit es) = concat (map target_reads es)"
| "target_reads e = expr_names e"

text \<open>
  The names a statement binds in the scope it stands in, and the names it reads there.
  A function definition binds the name of the function; the parameters of a function and
  the names its body assigns are local to it, so the definition reads the other names of
  the body, and those of its decorators. An annotated name without a value binds
  nothing; at the top level of a cell its annotation is evaluated, so its names are read.
\<close>

fun stmt_binds :: "stmt \<Rightarrow> string list" where
  "stmt_binds (Import _ a) = [a]"
| "stmt_binds (ImportFrom _ ns) = ns"
| "stmt_binds (Assign t _) = target_binds t"
| "stmt_binds (AnnAssign _ _) = []"
| "stmt_binds (ExprStmt _) = []"
| "stmt_binds (Return _) = []"
| "stmt_binds (FunctionDef f _ _ _) = [f]"
| "stmt_binds (IfStmt _ a b) = concat (map stmt_binds a) @ concat (map stmt_binds b)"
| "stmt_binds (WhileStmt _ a) = concat (map stmt_binds a)"
| "stmt_binds (ForStmt t _ a) = target_binds t @ concat (map stmt_binds a)"
| "stmt_binds (TryStmt a h) = concat (map stmt_binds a) @ concat (map stmt_binds h)"
| "stmt_binds (WithStmt _ t a) = concat (map target_binds t) @ concat (map stmt_binds a)"
| "stmt_binds (Shell _) = []"

fun stmt_reads :: "stmt \<Rightarrow> string list" where
  "stmt_reads (Import _ _) = []"
| "stmt_reads (ImportFrom _ _) = []"
| "stmt_reads (Assign t v) = expr_names v @ target_reads t"
| "stmt_reads (AnnAssign t ann) = target_reads t @ expr_names ann"
| "stmt_reads (ExprStmt e) = expr_names e"
| "stmt_reads (Return e) = expr_names e"
| "stmt_reads (FunctionDef _ decorators params body) =
     concat (map expr_names decorators)
     @ filter (\<lambda>n. n \<notin> set (params @ concat (map stmt_binds body)))
         (concat (map stmt_reads body))"
| "stmt_reads (IfStmt c a b) =
     expr_names c @ concat (map stmt_reads a) @ concat (map stmt_reads b)"
| "stmt_reads (WhileStmt c a) = expr_names c @ concat (map stmt_reads a)"
| "stmt_reads (ForStmt t i a) = expr_names i @ target_reads t @ concat (map stmt_reads a)"
| "stmt_reads (TryStmt a h) = concat (map stmt_reads a) @ concat (map stmt_reads h)"
| "stmt_reads (WithStmt c t a) =
     expr_names c @ concat (map target_reads t) @ concat (map stmt_reads a)"
| "stmt_reads (Shell _) = []"

fun stmt_constructs :: "stmt \<Rightarrow> construct list" where
  "stmt_constructs (Import _ _) = []"
| "stmt_constructs (ImportFrom _ _) = []"
| "stmt_constructs (Assign t v) = expr_constructs t @ expr_constructs v"
| "stmt_constructs (AnnAssign t ann) = expr_constructs t @ expr_constructs ann"
| "stmt_constructs (ExprStmt e) = expr_constructs e"
| "stmt_constructs (Return e) = expr_constructs e"
| "stmt_constructs (FunctionDef _ decorators _ body) =
     concat (map expr_constructs decorators) @ concat (map stmt_constructs body)"
| "stmt_constructs (IfStmt c a b) =
     Conditional # expr_constructs c @ concat (map stmt_constructs a)
     @ concat (map stmt_constructs b)"
| "stmt_constructs (WhileStmt c a) =
     Loop # expr_constructs c @ concat (map stmt_constructs a)"
| "stmt_constructs (ForStmt t i a) =
     Loop # expr_constructs t @ expr_constructs i @ concat (map stmt_constructs a)"
| "stmt_constructs (TryStmt a h) =
     Handler # concat (map stmt_constructs a) @ concat (map stmt_constructs h)"
| "stmt_constructs (WithStmt c t a) =
     Resource # expr_constructs c @ concat (map expr_constructs t)
     @ concat (map stmt_constructs a)"
| "stmt_constructs (Shell _) = []"

text \<open>The comparisons in an expression: left operand, operator, right operand.\<close>

fun expr_compares :: "expr \<Rightarrow> (expr \<times> cmpop \<times> expr) list" where
  "expr_compares (Name _) = []"
| "expr_compares (IntLit _) = []"
| "expr_compares (FloatLit _) = []"
| "expr_compares (StrLit _) = []"
| "expr_compares (BoolLit _) = []"
| "expr_compares Ellipsis = []"
| "expr_compares (Slice lo hi) = concat (map expr_compares lo) @ concat (map expr_compares hi)"
| "expr_compares (Attribute e _) = expr_compares e"
| "expr_compares (Call f args) = expr_compares f @ concat (map expr_compares args)"
| "expr_compares (Keyword _ e) = expr_compares e"
| "expr_compares (Subscript e i) = expr_compares e @ expr_compares i"
| "expr_compares (Tuple es) = concat (map expr_compares es)"
| "expr_compares (ListLit es) = concat (map expr_compares es)"
| "expr_compares (DictLit ks vs) = concat (map expr_compares ks) @ concat (map expr_compares vs)"
| "expr_compares (BinOp a _ b) = expr_compares a @ expr_compares b"
| "expr_compares (Compare a c b) = (a, c, b) # expr_compares a @ expr_compares b"
| "expr_compares (IfExp t a b) = expr_compares t @ expr_compares a @ expr_compares b"
| "expr_compares (Await e) = expr_compares e"
| "expr_compares (Yield e) = expr_compares e"

text \<open>The expressions of a statement, those of nested statements included.\<close>

fun stmt_exprs :: "stmt \<Rightarrow> expr list" where
  "stmt_exprs (Import _ _) = []"
| "stmt_exprs (ImportFrom _ _) = []"
| "stmt_exprs (Assign t v) = [t, v]"
| "stmt_exprs (AnnAssign t ann) = [t, ann]"
| "stmt_exprs (ExprStmt e) = [e]"
| "stmt_exprs (Return e) = [e]"
| "stmt_exprs (FunctionDef _ decorators _ body) = decorators @ concat (map stmt_exprs body)"
| "stmt_exprs (IfStmt c a b) = c # concat (map stmt_exprs a) @ concat (map stmt_exprs b)"
| "stmt_exprs (WhileStmt c a) = c # concat (map stmt_exprs a)"
| "stmt_exprs (ForStmt t i a) = t # i # concat (map stmt_exprs a)"
| "stmt_exprs (TryStmt a h) = concat (map stmt_exprs a) @ concat (map stmt_exprs h)"
| "stmt_exprs (WithStmt c t a) = c # t @ concat (map stmt_exprs a)"
| "stmt_exprs (Shell _) = []"

text \<open>The modules a statement imports, and the lines it hands to the shell.\<close>

fun stmt_imports :: "stmt \<Rightarrow> string list" where
  "stmt_imports (Import m _) = [m]"
| "stmt_imports (ImportFrom m _) = [m]"
| "stmt_imports (FunctionDef _ _ _ body) = concat (map stmt_imports body)"
| "stmt_imports (IfStmt _ a b) = concat (map stmt_imports a) @ concat (map stmt_imports b)"
| "stmt_imports (WhileStmt _ a) = concat (map stmt_imports a)"
| "stmt_imports (ForStmt _ _ a) = concat (map stmt_imports a)"
| "stmt_imports (TryStmt a h) = concat (map stmt_imports a) @ concat (map stmt_imports h)"
| "stmt_imports (WithStmt _ _ a) = concat (map stmt_imports a)"
| "stmt_imports _ = []"

fun stmt_shell_lines :: "stmt \<Rightarrow> string list" where
  "stmt_shell_lines (Shell l) = [l]"
| "stmt_shell_lines (FunctionDef _ _ _ body) = concat (map stmt_shell_lines body)"
| "stmt_shell_lines (IfStmt _ a b) =
     concat (map stmt_shell_lines a) @ concat (map stmt_shell_lines b)"
| "stmt_shell_lines (WhileStmt _ a) = concat (map stmt_shell_lines a)"
| "stmt_shell_lines (ForStmt _ _ a) = concat (map stmt_shell_lines a)"
| "stmt_shell_lines (TryStmt a h) =
     concat (map stmt_shell_lines a) @ concat (map stmt_shell_lines h)"
| "stmt_shell_lines (WithStmt _ _ a) = concat (map stmt_shell_lines a)"
| "stmt_shell_lines _ = []"

definition cell_imports :: "cell \<Rightarrow> string list" where
  "cell_imports c = concat (map stmt_imports c)"

definition cell_shell_lines :: "cell \<Rightarrow> string list" where
  "cell_shell_lines c = concat (map stmt_shell_lines c)"

text \<open>The top-level package of a dotted module name.\<close>

definition module_root :: "string \<Rightarrow> string" where
  "module_root m = takeWhile (\<lambda>c. c \<noteq> CHR ''.'') m"

definition cell_constructs :: "cell \<Rightarrow> construct list" where
  "cell_constructs c = concat (map stmt_constructs c)"

definition cell_calls :: "cell \<Rightarrow> string list" where
  "cell_calls c = concat (map expr_calls (concat (map stmt_exprs c)))"

definition cell_compares :: "cell \<Rightarrow> (expr \<times> cmpop \<times> expr) list" where
  "cell_compares c = concat (map expr_compares (concat (map stmt_exprs c)))"

definition cell_binds :: "cell \<Rightarrow> string list" where
  "cell_binds c = concat (map stmt_binds c)"

text \<open>
  The names a cell needs from outside: read by a statement of the cell and bound by no
  statement before it in the cell. Such a name is bound by another cell, is a builtin
  (\<open>print\<close>, \<open>len\<close>, \<open>abs\<close>) or is bound nowhere.
\<close>

fun free_reads_from :: "string list \<Rightarrow> cell \<Rightarrow> string list" where
  "free_reads_from bound [] = []"
| "free_reads_from bound (s # ss) =
     filter (\<lambda>n. n \<notin> set bound) (stmt_reads s)
     @ free_reads_from (bound @ stmt_binds s) ss"

definition cell_free_reads :: "cell \<Rightarrow> string list" where
  "cell_free_reads c = remdups (free_reads_from [] c)"

text \<open>
  \<open>(i, j, n)\<close> is a cross reference of a notebook when cell \<open>j\<close> needs the name
  \<open>n\<close> from outside and another cell \<open>i\<close> binds it (cells counted from 0).
\<close>

definition cross_refs :: "notebook \<Rightarrow> (nat \<times> nat \<times> string) list" where
  "cross_refs nb =
     [(i, j, n). (i, ci) \<leftarrow> enumerate 0 nb, (j, cj) \<leftarrow> enumerate 0 nb, i \<noteq> j,
        n \<leftarrow> cell_free_reads cj, n \<in> set (cell_binds ci)]"

text \<open>
  \<open>(j, n)\<close> is a backward reference when cell \<open>j\<close> needs \<open>n\<close> from outside, some
  cell of the notebook binds \<open>n\<close>, and no cell before \<open>j\<close> does.
\<close>

definition backward_refs :: "notebook \<Rightarrow> (nat \<times> string) list" where
  "backward_refs nb =
     [(j, n). (j, cj) \<leftarrow> enumerate 0 nb, n \<leftarrow> cell_free_reads cj,
        n \<in> set (concat (map cell_binds nb)),
        n \<notin> set (concat (map cell_binds (take j nb)))]"


subsection \<open>Chapter 2: collecting, labeling and validating data\<close>

definition ch2_install :: cell where
  "ch2_install = [Shell ''pip install tensorflow-data-validation'']"

definition ch2_stats_csv :: cell where
  "ch2_stats_csv =
     [Import ''tensorflow_data_validation'' ''tfdv'',
      Assign (Name ''stats'')
        (Call (Attribute (Name ''tfdv'') ''generate_statistics_from_csv'')
           [Keyword ''data_location'' (StrLit ''your_data.csv''),
            Keyword ''delimiter'' (StrLit '','')])]"

definition ch2_stats_tfrecord :: cell where
  "ch2_stats_tfrecord =
     [Assign (Name ''stats'')
        (Call (Attribute (Name ''tfdv'') ''generate_statistics_from_tfrecord'')
           [Keyword ''data_location'' (StrLit ''your_data.tfrecord'')]),
      ExprStmt (Call (Attribute (Name ''tfdv'') ''visualize_statistics'') [Name ''stats''])]"

definition ch2_histogram :: cell where
  "ch2_histogram =
     [ExprStmt (Call (Name ''print'')
        [Attribute
           (Attribute
              (Subscript
                 (Attribute (Subscript (Attribute (Name ''stats'') ''datasets'') (IntLit 0))
                    ''features'')
                 (IntLit 0))
              ''string_stats'')
           ''rank_histogram''])]"

definition chapter_02 :: notebook where
  "chapter_02 = [ch2_install, ch2_stats_csv, ch2_stats_tfrecord, ch2_histogram]"

subsection \<open>Chapter 5: advanced labeling, augmentation and preprocessing\<close>

definition ch5_semi_supervised :: cell where
  "ch5_semi_supervised =
     [ImportFrom ''sklearn'' [''datasets''],
      ImportFrom ''sklearn.semi_supervised'' [''LabelPropagation''],
      Import ''matplotlib.pyplot'' ''plt'',
      Import ''numpy'' ''np'',
      Assign (Tuple [Name ''X'', Name ''y''])
        (Call (Attribute (Name ''datasets'') ''make_classification'')
           [Keyword ''n_samples'' (IntLit 200), Keyword ''n_features'' (IntLit 2),
            Keyword ''n_classes'' (IntLit 2), Keyword ''n_redundant'' (IntLit 0)]),
      Assign (Name ''rng'')
        (Call (Attribute (Attribute (Name ''np'') ''random'') ''RandomState'') [IntLit 42]),
      Assign (Name ''y_missing'') (Call (Attribute (Name ''y'') ''copy'') []),
      Assign (Name ''unlabeled_indices'')
        (Compare (Call (Attribute (Name ''rng'') ''rand'') [Call (Name ''len'') [Name ''y'']])
           CmpLt (FloatLit ''0.8'')),
      Assign (Subscript (Name ''y_missing'') (Name ''unlabeled_indices'')) (IntLit (- 1)),
      Assign (Name ''lp_model'') (Call (Name ''LabelPropagation'') []),
      ExprStmt (Call (Attribute (Name ''lp_model'') ''fit'') [Name ''X'', Name ''y_missing''])]"

definition ch5_active_learning :: cell where
  "ch5_active_learning =
     [ImportFrom ''sklearn.svm'' [''SVC''],
      Assign (Name ''initial_idx'')
        (Subscript
           (Subscript
              (Call (Attribute (Name ''np'') ''where'')
                 [Compare (Name ''y_missing'') CmpNotEq (IntLit (- 1))])
              (IntLit 0))
           (Slice [] [IntLit 10])),
      Assign (Name ''model'')
        (Call (Name ''SVC'')
           [Keyword ''kernel'' (StrLit ''linear''), Keyword ''probability'' (BoolLit True)]),
      ExprStmt (Call (Attribute (Name ''model'') ''fit'')
        [Subscript (Name ''X'') (Name ''initial_idx''),
         Subscript (Name ''y'') (Name ''initial_idx'')]),
      Assign (Name ''probs'') (Call (Attribute (Name ''model'') ''predict_proba'') [Name ''X'']),
      Assign (Name ''margins'')
        (Call (Attribute (Name ''np'') ''abs'')
           [BinOp (Subscript (Name ''probs'') (Tuple [Slice [] [], IntLit 0])) OpSub
              (Subscript (Name ''probs'') (Tuple [Slice [] [], IntLit 1]))]),
      Assign (Name ''uncertain_idx'')
        (Subscript (Call (Attribute (Name ''np'') ''argsort'') [Name ''margins''])
           (Slice [] [IntLit 10]))]"

definition ch5_weak_supervision :: cell where
  "ch5_weak_supervision =
     [ImportFrom ''snorkel.labeling'' [''labeling_function''],
      FunctionDef ''lf_contains_my'' [Call (Name ''labeling_function'') []] [''x'']
        [Return (IfExp
           (Compare (StrLit ''my'') CmpIn
              (Call (Attribute (Attribute (Name ''x'') ''text'') ''lower'') []))
           (IntLit 1) (IntLit (- 1)))],
      FunctionDef ''lf_short_comment'' [Call (Name ''labeling_function'') []] [''x'']
        [Return (IfExp
           (Compare
              (Call (Name ''len'')
                 [Call (Attribute (Attribute (Name ''x'') ''text'') ''split'') []])
              CmpLt (IntLit 5))
           (IntLit 0) (IntLit (- 1)))]]"

definition ch5_augmentation :: cell where
  "ch5_augmentation =
     [Import ''tensorflow'' ''tf'',
      FunctionDef ''augment'' [] [''x'', ''height'', ''width'', ''num_channels'']
        [Assign (Name ''x'')
           (Call (Attribute (Attribute (Name ''tf'') ''image'') ''resize_with_crop_or_pad'')
              [Name ''x'', BinOp (Name ''height'') OpAdd (IntLit 8),
               BinOp (Name ''width'') OpAdd (IntLit 8)]),
         Assign (Name ''x'')
           (Call (Attribute (Attribute (Name ''tf'') ''image'') ''random_crop'')
              [Name ''x'', ListLit [Name ''height'', Name ''width'', Name ''num_channels'']]),
         Assign (Name ''x'')
           (Call (Attribute (Attribute (Name ''tf'') ''image'') ''random_flip_left_right'')
              [Name ''x'']),
         Return (Name ''x'')]]"

definition ch5_seasonality :: cell where
  "ch5_seasonality =
     [Assign (Name ''x'')
        (Call (Attribute (Name ''np'') ''linspace'') [IntLit 0, IntLit 10, IntLit 200]),
      Assign (Name ''y'')
        (BinOp
           (BinOp (IntLit 3) OpMult
              (Call (Attribute (Name ''np'') ''sin'')
                 [BinOp (BinOp (IntLit 2) OpMult (Attribute (Name ''np'') ''pi'')) OpMult
                    (Name ''x'')]))
           OpAdd (IntLit 15)),
      ExprStmt (Call (Attribute (Name ''plt'') ''plot'') [Name ''x'', Name ''y'']),
      ExprStmt (Call (Attribute (Name ''plt'') ''title'') [StrLit ''Seasonality in Time Series'']),
      ExprStmt (Call (Attribute (Name ''plt'') ''xlabel'') [StrLit ''Time'']),
      ExprStmt (Call (Attribute (Name ''plt'') ''ylabel'') [StrLit ''Temperature'']),
      ExprStmt (Call (Attribute (Name ''plt'') ''show'') [])]"

definition chapter_05 :: notebook where
  "chapter_05 =
     [ch5_semi_supervised, ch5_active_learning, ch5_weak_supervision, ch5_augmentation,
      ch5_seasonality]"

subsection \<open>Chapter 3: feature engineering and feature selection\<close>

definition ch3_feature_std :: cell where
  "ch3_feature_std =
     [Import ''numpy'' ''np'',
      FunctionDef ''compute_feature_std'' [] [''feature_column'']
        [Return (Call (Attribute (Name ''np'') ''std'') [Name ''feature_column''])]]"

definition ch3_scaling :: cell where
  "ch3_scaling =
     [Import ''pandas'' ''pd'',
      ImportFrom ''sklearn.preprocessing'' [''MinMaxScaler'', ''StandardScaler''],
      Assign (Name ''X'') (ListLit [ListLit [IntLit 1], ListLit [IntLit 2], ListLit [IntLit 3]]),
      Assign (Name ''X_norm'')
        (Call (Attribute (Call (Name ''MinMaxScaler'') []) ''fit_transform'') [Name ''X'']),
      Assign (Name ''X_std'')
        (Call (Attribute (Call (Name ''StandardScaler'') []) ''fit_transform'') [Name ''X''])]"

definition ch3_data_cleaning :: cell where
  "ch3_data_cleaning =
     [Assign (Name ''df'')
        (Call (Attribute (Name ''pd'') ''DataFrame'')
           [DictLit [StrLit ''timestamp'']
              [ListLit [StrLit ''00:00'', StrLit ''12:00'', StrLit ''00:00'']]]),
      Assign (Name ''df_cleaned'')
        (Subscript (Name ''df'')
           (Compare (Subscript (Name ''df'') (StrLit ''timestamp'')) CmpNotEq
              (StrLit ''00:00'')))]"

definition ch3_bucketizing :: cell where
  "ch3_bucketizing =
     [Import ''pandas'' ''pd'',
      Assign (Name ''values'')
        (Call (Attribute (Name ''pd'') ''Series'')
           [ListLit [IntLit 1, IntLit 2, IntLit 2, IntLit 3, IntLit 4, IntLit 5, IntLit 6,
              IntLit 7, IntLit 8]]),
      Assign (Name ''buckets'')
        (Call (Attribute (Name ''pd'') ''qcut'')
           [Name ''values'', Keyword ''q'' (IntLit 3),
            Keyword ''labels'' (ListLit [StrLit ''low'', StrLit ''medium'', StrLit ''high''])])]"

definition ch3_feature_cross :: cell where
  "ch3_feature_cross =
     [Import ''pandas'' ''pd'',
      Assign (Name ''df'')
        (Call (Attribute (Name ''pd'') ''DataFrame'')
           [DictLit [StrLit ''day'', StrLit ''hour'']
              [ListLit [IntLit 1, IntLit 2], ListLit [IntLit 10, IntLit 12]]]),
      Assign (Subscript (Name ''df'') (StrLit ''hour_of_week''))
        (BinOp
           (BinOp (Subscript (Name ''df'') (StrLit ''day'')) OpMult (IntLit 24))
           OpAdd (Subscript (Name ''df'') (StrLit ''hour'')))]"

definition ch3_pca :: cell where
  "ch3_pca =
     [ImportFrom ''sklearn.decomposition'' [''PCA''],
      Assign (Name ''X'')
        (ListLit [ListLit [IntLit 1, IntLit 2], ListLit [IntLit 3, IntLit 4],
           ListLit [IntLit 5, IntLit 6]]),
      Assign (Name ''pca'') (Call (Name ''PCA'') [Keyword ''n_components'' (IntLit 1)]),
      Assign (Name ''X_reduced'')
        (Call (Attribute (Name ''pca'') ''fit_transform'') [Name ''X''])]"

definition ch3_filter_methods :: cell where
  "ch3_filter_methods =
     [Assign (Name ''cor'') (Call (Attribute (Name ''df'') ''corr'') []),
      Assign (Name ''cor_target'')
        (Call (Name ''abs'') [Subscript (Name ''cor'') (StrLit ''target'')]),
      Assign (Name ''selected_features'')
        (Attribute
           (Subscript (Name ''cor_target'')
              (Compare (Name ''cor_target'') CmpGt (FloatLit ''0.8'')))
           ''index'')]"

definition ch3_univariate_selection :: cell where
  "ch3_univariate_selection =
     [ImportFrom ''sklearn.feature_selection'' [''SelectKBest'', ''chi2''],
      ImportFrom ''sklearn.model_selection'' [''train_test_split''],
      ImportFrom ''sklearn.preprocessing'' [''MinMaxScaler''],
      FunctionDef ''univariate_selection'' [] [''X'', ''y'']
        [Assign (Tuple [Name ''X_train'', Name ''_'', Name ''y_train'', Name ''_''])
           (Call (Name ''train_test_split'')
              [Name ''X'', Name ''y'', Keyword ''stratify'' (Name ''y''),
               Keyword ''test_size'' (FloatLit ''0.2'')]),
         Assign (Name ''X_scaled'')
           (Call (Attribute (Call (Name ''MinMaxScaler'') []) ''fit_transform'')
              [Name ''X_train'']),
         Assign (Name ''selector'')
           (Call (Name ''SelectKBest'')
              [Keyword ''score_func'' (Name ''chi2''), Keyword ''k'' (IntLit 10)]),
         ExprStmt (Call (Attribute (Name ''selector'') ''fit'')
           [Name ''X_scaled'', Name ''y_train'']),
         Return (Subscript (Attribute (Name ''X'') ''columns'')
           (Call (Attribute (Name ''selector'') ''get_support'') []))]]"

definition ch3_rfe :: cell where
  "ch3_rfe =
     [ImportFrom ''sklearn.feature_selection'' [''RFE''],
      ImportFrom ''sklearn.ensemble'' [''RandomForestClassifier''],
      FunctionDef ''run_rfe'' [] [''X'', ''y'', ''k'']
        [Assign (Name ''model'') (Call (Name ''RandomForestClassifier'') []),
         Assign (Name ''rfe'')
           (Call (Name ''RFE'') [Name ''model'', Keyword ''n_features_to_select'' (Name ''k'')]),
         ExprStmt (Call (Attribute (Name ''rfe'') ''fit'') [Name ''X'', Name ''y'']),
         Return (Subscript (Attribute (Name ''X'') ''columns'')
           (Call (Attribute (Name ''rfe'') ''get_support'') []))]]"

definition ch3_embedded :: cell where
  "ch3_embedded =
     [ImportFrom ''sklearn.feature_selection'' [''SelectFromModel''],
      ImportFrom ''sklearn.ensemble'' [''RandomForestClassifier''],
      Assign (Name ''model'') (Call (Name ''RandomForestClassifier'') []),
      ExprStmt (Call (Attribute (Name ''model'') ''fit'') [Name ''X'', Name ''y'']),
      Assign (Name ''selector'')
        (Call (Name ''SelectFromModel'') [Name ''model'', Keyword ''prefit'' (BoolLit True)]),
      Assign (Name ''X_selected'')
        (Call (Attribute (Name ''selector'') ''transform'') [Name ''X''])]"

definition ch3_tokenization :: cell where
  "ch3_tokenization =
     [Import ''tensorflow'' ''tf'',
      Import ''tensorflow_hub'' ''hub'',
      Import ''tensorflow_text'' ''tf_text'',
      Assign (Name ''START_TOKEN_ID'') (IntLit 101),
      Assign (Name ''END_TOKEN_ID'') (IntLit 102),
      FunctionDef ''preprocessing_fn'' [] [''inputs'']
        [Assign (Name ''tokenizer'')
           (Call (Attribute (Name ''tf_text'') ''BertTokenizer'') [Ellipsis]),
         Assign (Name ''text'')
           (Call (Attribute (Name ''tf_text'') ''normalize_utf8'')
              [Subscript (Name ''inputs'') (StrLit ''message'')]),
         Assign (Name ''tokens'')
           (Call (Attribute
                    (Call (Attribute (Name ''tokenizer'') ''tokenize'') [Name ''text''])
                    ''merge_dims'')
              [IntLit (- 2), IntLit (- 1)]),
         Assign (Tuple [Name ''tokens'', Name ''type_ids''])
           (Call (Attribute (Name ''tf_text'') ''combine_segments'')
              [Name ''tokens'', Name ''START_TOKEN_ID'', Name ''END_TOKEN_ID'']),
         Assign (Tuple [Name ''tokens'', Name ''mask_ids''])
           (Call (Attribute (Name ''tf_text'') ''pad_model_inputs'')
              [Name ''tokens'', Keyword ''max_seq_length'' (IntLit 128)]),
         Return (DictLit
           [StrLit ''input_ids'', StrLit ''input_mask'', StrLit ''input_type_ids'']
           [Name ''tokens'', Name ''mask_ids'', Name ''type_ids''])]]"

definition chapter_03 :: notebook where
  "chapter_03 =
     [ch3_feature_std, ch3_scaling, ch3_data_cleaning, ch3_bucketizing, ch3_feature_cross,
      ch3_pca, ch3_filter_methods, ch3_univariate_selection, ch3_rfe, ch3_embedded,
      ch3_tokenization]"

subsection \<open>Chapter 4: data journey and data storage\<close>

definition ch4_schema_inference :: cell where
  "ch4_schema_inference =
     [Import ''tensorflow_data_validation'' ''tfdv'',
      Assign (Name ''dataset_stats'')
        (Call (Attribute (Name ''tfdv'') ''generate_statistics_from_tfrecord'')
           [StrLit ''train.tfrecord'']),
      Assign (Name ''schema'')
        (Call (Attribute (Name ''tfdv'') ''infer_schema'')
           [Keyword ''statistics'' (Name ''dataset_stats'')]),
      ExprStmt (Call (Attribute (Name ''tfdv'') ''display_schema'') [Name ''schema''])]"

definition ch4_schema_validation :: cell where
  "ch4_schema_validation =
     [Assign (Name ''anomalies'')
        (Call (Attribute (Name ''tfdv'') ''validate_statistics'')
           [Keyword ''statistics'' (Name ''dataset_stats''),
            Keyword ''schema'' (Name ''schema'')]),
      ExprStmt (Call (Attribute (Name ''tfdv'') ''display_anomalies'') [Name ''anomalies''])]"

text \<open>
  The block that sets the drift threshold is schema text, fenced as Python, and Python
  reads it as an annotated name without a value:
  \<^verbatim>\<open>
  drift_comparator: {
    infinity_norm_threshold: 0.05
  }
  \<close>
\<close>

definition ch4_drift_comparator :: cell where
  "ch4_drift_comparator =
     [AnnAssign (Name ''drift_comparator'')
        (DictLit [Name ''infinity_norm_threshold''] [FloatLit ''0.05''])]"

definition ch4_feature_store :: cell where
  "ch4_feature_store =
     [ExprStmt (Call (Attribute (Name ''feature_store'') ''put'')
        [StrLit ''user_age_bucket'', Name ''feature_vector'']),
      Assign (Name ''features'')
        (Call (Attribute (Name ''feature_store'') ''get'')
           [ListLit [StrLit ''user_age_bucket''], Keyword ''user_id'' (StrLit ''123'')])]"

definition chapter_04 :: notebook where
  "chapter_04 =
     [ch4_schema_inference, ch4_schema_validation, ch4_drift_comparator, ch4_feature_store]"

text \<open>
  The chapter 4 notebook has three more fenced blocks, which hold no Python statement and
  are left out: one fenced as Python holds only comments; one fenced as Python holds a
  schema field in protocol buffer text (\<open>feature { ... }\<close>), which Python does not
  parse; one is fenced as protocol buffer text.
\<close>

definition all_cells :: "cell list" where
  "all_cells = chapter_02 @ chapter_03 @ chapter_04 @ chapter_05"

text \<open>The library entry points that select features or validate data.\<close>

text \<open>
  The modules of Python's library that start threads or processes or schedule coroutines,
  and the names of calls that start, wait for or suspend one, or open and close a
  resource.
\<close>

definition concurrency_modules :: "string list" where
  "concurrency_modules =
     [''threading'', ''_thread'', ''multiprocessing'', ''concurrent'', ''asyncio'',
      ''subprocess'', ''os'', ''signal'', ''sched'', ''queue'', ''socket'']"

definition concurrency_calls :: "string list" where
  "concurrency_calls =
     [''Thread'', ''Timer'', ''Process'', ''Pool'', ''ThreadPoolExecutor'',
      ''ProcessPoolExecutor'', ''Popen'', ''system'', ''fork'', ''spawn'', ''start'', ''join'',
      ''submit'', ''run'', ''sleep'', ''wait'', ''input'', ''Lock'', ''open'', ''close'']"

text \<open>A cell starts a process when it hands a line to the shell or calls for one.\<close>

definition cell_starts_process :: "cell \<Rightarrow> bool" where
  "cell_starts_process c =
     (cell_shell_lines c \<noteq> []
      \<or> list_ex (\<lambda>n. n \<in> set [''Popen'', ''system'', ''fork'', ''spawn'', ''Process'', ''Pool'',
            ''ProcessPoolExecutor'']) (cell_calls c))"

definition delegated_calls :: "cell \<Rightarrow> string list" where
  "delegated_calls c =
     filter (\<lambda>n. n \<in> set [''SelectKBest'', ''RFE'', ''SelectFromModel'', ''validate_statistics''])
       (cell_calls c)"

section \<open>Sample libraries for evaluation\<close>

text \<open>
  Small stand-ins for the libraries, used to run the snippets on concrete inputs: objects
  are numbers, exceptions are their names, and the world counts the calls made.
  \<open>fit\<close> refuses the target \<open>0\<close>, \<open>random_crop\<close> refuses a crop higher than 32, and
  the CSV file is missing.
\<close>

definition demo_sklearn :: "(nat, string, nat) sklearn_api" where
  "demo_sklearn =
     \<lparr>train_test_split = (\<lambda>X y stratify test_size w. (Inr (X, X, y, y), Suc w)),
      MinMaxScaler = (\<lambda>w. (Inr 0, Suc w)),
      fit_transform = (\<lambda>scaler X w. (Inr X, Suc w)),
      chi2 = 0,
      SelectKBest = (\<lambda>score_func k w. (Inr 1, Suc w)),
      fit = (\<lambda>selector X y w. (if y = 0 then Inl ''ValueError'' else Inr selector, Suc w)),
      get_support = (\<lambda>selector w. (Inr selector, Suc w)),
      columns = (\<lambda>X w. (Inr X, Suc w)),
      getitem = (\<lambda>cols support w. (Inr (cols + support), Suc w))\<rparr>"

definition demo_tf_image :: "(nat, string, nat) tf_image_api" where
  "demo_tf_image =
     \<lparr>resize_with_crop_or_pad = (\<lambda>x h wd w. (Inr x, Suc w)),
      random_crop = (\<lambda>x size w.
        (if size \<noteq> [] \<and> hd size \<le> 32 then Inr x else Inl ''InvalidArgumentError'', Suc w)),
      random_flip_left_right = (\<lambda>x w. (Inr x, Suc w))\<rparr>"

definition demo_tfdv :: "(nat, string, nat) tfdv_api" where
  "demo_tfdv =
     \<lparr>import_tfdv = (\<lambda>w. (Inr (), Suc w)),
      generate_statistics_from_csv = (\<lambda>location delimiter w. (Inl ''NotFoundError'', Suc w)),
      generate_statistics_from_tfrecord = (\<lambda>location w. (Inr 7, Suc w)),
      visualize_statistics = (\<lambda>s w. (Inr (), Suc w))\<rparr>"

definition demo_objects :: "(nat, string, nat) object_api" where
  "demo_objects =
     \<lparr>getattr = (\<lambda>v name w. (Inr v, Suc w)),
      index_int = (\<lambda>v i w. (Inr v, Suc w)),
      print_value = (\<lambda>v w. (Inr (), Suc w))\<rparr>"

section \<open>Properties of the feature cross\<close>

lemma int64_wrap_id: "is_int64 x \<Longrightarrow> int64_wrap x = x"
  by (simp add: is_int64_def int64_min_def int64_max_def int64_wrap_def)

lemma int64_wrap_wrap_add: "int64_wrap (int64_wrap a + b) = int64_wrap (a + b)"
proof -
  have "(int64_wrap a + b + 2 ^ 63) mod 2 ^ 64 = ((a + 2 ^ 63) mod 2 ^ 64 + b) mod 2 ^ 64"
    by (simp add: int64_wrap_def)
  also have "\<dots> = (a + 2 ^ 63 + b) mod 2 ^ 64"
    by (simp add: mod_add_left_eq)
  also have "\<dots> = (a + b + 2 ^ 63) mod 2 ^ 64"
    by (simp add: algebra_simps)
  finally show ?thesis
    by (simp add: int64_wrap_def)
qed

lemma hour_of_week_exact:
  assumes "is_int64 (day * 24 + hour)"
  shows "hour_of_week day hour = day * 24 + hour"
  using assms
  by (simp add: hour_of_week_def int64_add_def int64_mul_def int64_wrap_wrap_add int64_wrap_id)

lemma hour_of_week_sample: "hour_of_week_column [(1, 10), (2, 12)] = [34, 60]"
  by (simp add: hour_of_week_column_def hour_of_week_def int64_add_def int64_mul_def
      int64_wrap_def)

text \<open>
  Claim C8, as stated, at a concrete input: for day \<open>2 ^ 61\<close> (an int64 value) and hour
  \<open>0\<close> the product \<open>day * 24 = 3 * 2 ^ 64\<close> wraps to \<open>0\<close>, so the cross is \<open>0\<close>, the
  same as for day \<open>0\<close> and hour \<open>0\<close>: the day is not recovered by dividing by 24 and
  the cross is not injective on all int64 pairs with \<open>0 \<le> hour < 24\<close>.
\<close>

theorem hour_of_week_overflow_counterexample:
  "is_int64 (2 ^ 61) \<and> (0::int) \<le> 0 \<and> (0::int) < 24
   \<and> hour_of_week (2 ^ 61) 0 div 24 \<noteq> 2 ^ 61
   \<and> hour_of_week (2 ^ 61) 0 = hour_of_week 0 0
   \<and> (2 ^ 61, 0) \<noteq> (0::int, 0::int)"
  by (simp add: hour_of_week_def int64_add_def int64_mul_def int64_wrap_def is_int64_def
      int64_min_def int64_max_def)

text \<open>
  Claim C8, amended: whenever \<open>0 \<le> hour < 24\<close> and \<open>day * 24 + hour\<close> fits the int64
  range, day and hour are recovered as \<open>hour_of_week div 24\<close> and
  \<open>hour_of_week mod 24\<close>; hence the cross is injective on such pairs.
\<close>

theorem hour_of_week_reversible:
  assumes "0 \<le> hour" and "hour < 24" and "is_int64 (day * 24 + hour)"
    and "0 \<le> hour'" and "hour' < 24" and "is_int64 (day' * 24 + hour')"
  shows "hour_of_week day hour div 24 = day \<and> hour_of_week day hour mod 24 = hour
    \<and> (hour_of_week day hour = hour_of_week day' hour' \<longrightarrow> day = day' \<and> hour = hour')"
proof -
  have e: "hour_of_week day hour = day * 24 + hour"
    using assms(3) by (rule hour_of_week_exact)
  have e': "hour_of_week day' hour' = day' * 24 + hour'"
    using assms(6) by (rule hour_of_week_exact)
  have d: "(day * 24 + hour) div 24 = day" and m: "(day * 24 + hour) mod 24 = hour"
    using assms(1,2) by simp_all
  have d': "(day' * 24 + hour') div 24 = day'" and m': "(day' * 24 + hour') mod 24 = hour'"
    using assms(4,5) by simp_all
  show ?thesis
    using e e' d m d' m' by metis
qed

theorem hour_of_week_reversible_witness:
  "(0::int) \<le> 10 \<and> (10::int) < 24 \<and> is_int64 (1 * 24 + 10)
   \<and> (0::int) \<le> 12 \<and> (12::int) < 24 \<and> is_int64 (2 * 24 + 12)
   \<and> hour_of_week 1 10 = 34 \<and> hour_of_week 1 10 div 24 = 1 \<and> hour_of_week 1 10 mod 24 = 10
   \<and> hour_of_week 1 10 \<noteq> hour_of_week 2 12"
proof -
  have a: "(0::int) \<le> 10" "(10::int) < 24" "is_int64 (1 * 24 + 10)"
    and b: "(0::int) \<le> 12" "(12::int) < 24" "is_int64 (2 * 24 + 12)"
    by (simp_all add: is_int64_def int64_min_def int64_max_def)
  have v: "hour_of_week 1 10 = 34" "hour_of_week 2 12 = 60"
    by (simp_all add: hour_of_week_def int64_add_def int64_mul_def int64_wrap_def)
  from hour_of_week_reversible [OF a b] a b v show ?thesis
    by simp
qed

section \<open>Properties of the data cleaning filter\<close>

lemma mask_filter: "map fst (filter (\<lambda>(r, b). b) (zip f (map P f))) = filter P f"
  by (induction f) auto

lemma getitem_series_ne:
  "getitem_mask f (series_ne f s) = Inr (filter (\<lambda>r. timestamp r \<noteq> s) f)"
  by (simp add: getitem_mask_def series_ne_def mask_filter comp_def)

text \<open>
  Claim C9: when \<open>df\<close> holds a frame, the statement
  \<open>df_cleaned = df[df["timestamp"] != "00:00"]\<close> succeeds and binds \<open>df_cleaned\<close> to
  a new frame with the rows of \<open>df\<close> whose timestamp differs from \<open>00:00\<close>: exactly
  those rows, in their original relative order (the frame filtered by that test, a
  subsequence of it). \<open>df\<close> still holds the same object, whose rows are unchanged, as
  are all other objects of the heap.
\<close>

theorem df_cleaned_filter:
  assumes "df st = Some a" and "a < next_addr st"
  shows "\<exists>st' b. assign_df_cleaned st = Inr st' \<and> df_cleaned st' = Some b \<and> b \<noteq> a
     \<and> heap st' b = filter (\<lambda>r. timestamp r \<noteq> ''00:00'') (heap st a)
     \<and> set (heap st' b) = {r \<in> set (heap st a). timestamp r \<noteq> ''00:00''}
     \<and> subseq (heap st' b) (heap st a)
     \<and> df st' = Some a \<and> heap st' a = heap st a
     \<and> (\<forall>c. c \<noteq> b \<longrightarrow> heap st' c = heap st c)"
  using assms by (auto simp: assign_df_cleaned_def getitem_series_ne alloc_def)

theorem df_cleaned_filter_witness:
  "\<exists>st'. data_cleaning_cell fresh_state = Inr st'
     \<and> df st' = Some 0 \<and> df_cleaned st' = Some 1
     \<and> heap st' 0 = [\<lparr>label = 0, timestamp = ''00:00''\<rparr>, \<lparr>label = 1, timestamp = ''12:00''\<rparr>,
                      \<lparr>label = 2, timestamp = ''00:00''\<rparr>]
     \<and> heap st' 1 = [\<lparr>label = 1, timestamp = ''12:00''\<rparr>]"
proof -
  let ?f = "[\<lparr>label = 0, timestamp = ''00:00''\<rparr>, \<lparr>label = 1, timestamp = ''12:00''\<rparr>,
             \<lparr>label = 2, timestamp = ''00:00''\<rparr>]"
  let ?st = "\<lparr>df = Some 0, df_cleaned = None, heap = (\<lambda>a. [])(0 := ?f), next_addr = Suc 0\<rparr>"
  have a: "assign_df [''00:00'', ''12:00'', ''00:00''] fresh_state = Inr ?st"
    by (simp add: assign_df_def alloc_def new_frame_def fresh_state_def enumerate_eq_zip upt_rec)
  have d: "df ?st = Some 0" and n: "0 < next_addr ?st" by simp_all
  from df_cleaned_filter [OF d n] obtain st' b where
    r: "assign_df_cleaned ?st = Inr st'" and
    c: "df_cleaned st' = Some b" and
    g: "heap st' b = filter (\<lambda>r. timestamp r \<noteq> ''00:00'') (heap ?st 0)" and
    u: "df st' = Some 0" and
    h: "heap st' 0 = heap ?st 0"
    by blast
  have b: "b = 1"
    using r c by (auto simp: assign_df_cleaned_def getitem_series_ne alloc_def)
  have "data_cleaning_cell fresh_state = Inr st'"
    using a r by (simp add: data_cleaning_cell_def)
  moreover have "heap st' 1 = [\<lparr>label = 1, timestamp = ''12:00''\<rparr>]"
    using g b by simp
  moreover have "heap st' 0 = ?f"
    using h by simp
  ultimately show ?thesis
    using c u b by auto
qed

section \<open>Properties of the labeling functions\<close>

lemma startswith_iff: "startswith s p \<longleftrightarrow> (\<exists>post. s = p @ post)"
  by (induction s p rule: startswith.induct) auto

lemma str_contains_iff: "str_contains s sub \<longleftrightarrow> (\<exists>pre post. s = pre @ sub @ post)"
proof (induction s)
  case Nil
  then show ?case by auto
next
  case (Cons c cs)
  show ?case
  proof
    assume "str_contains (c # cs) sub"
    then consider "startswith (c # cs) sub" | "str_contains cs sub" by auto
    then show "\<exists>pre post. c # cs = pre @ sub @ post"
    proof cases
      case 1
      then obtain post where "c # cs = sub @ post" by (auto simp: startswith_iff)
      then have "c # cs = [] @ sub @ post" by simp
      then show ?thesis by blast
    next
      case 2
      then obtain pre post where "cs = pre @ sub @ post" using Cons.IH by auto
      then have "c # cs = (c # pre) @ sub @ post" by simp
      then show ?thesis by blast
    qed
  next
    assume "\<exists>pre post. c # cs = pre @ sub @ post"
    then obtain pre post where e: "c # cs = pre @ sub @ post" by auto
    show "str_contains (c # cs) sub"
    proof (cases pre)
      case Nil
      then have "startswith (c # cs) sub" using e by (auto simp: startswith_iff)
      then show ?thesis by simp
    next
      case (Cons a pre')
      then have "cs = pre' @ sub @ post" using e by simp
      then have "str_contains cs sub" using Cons.IH by auto
      then show ?thesis by simp
    qed
  qed
qed

lemma starts_skip_space: "starts True (dropWhile is_space s) = starts True s"
  by (induction s) auto

lemma starts_skip_token: "starts True (dropWhile (\<lambda>d. \<not> is_space d) s) = starts False s"
  by (induction s) auto

lemma length_str_split: "length (str_split s) = starts True s"
proof (induction s rule: str_split.induct)
  case (1 s)
  show ?case
  proof (cases "dropWhile is_space s")
    case Nil
    have "starts True s = starts True (dropWhile is_space s)"
      by (simp add: starts_skip_space)
    also have "\<dots> = 0" by (simp add: Nil)
    finally show ?thesis by (subst str_split.simps) (simp add: Nil)
  next
    case (Cons c cs)
    then have nsp: "\<not> is_space c" by (metis hd_dropWhile list.sel(1) list.distinct(1))
    have "starts True s = starts True (c # cs)" using starts_skip_space [of s] Cons by simp
    also have "\<dots> = 1 + starts False cs" using nsp by simp
    also have "\<dots> = 1 + starts True (dropWhile (\<lambda>d. \<not> is_space d) cs)"
      by (simp add: starts_skip_token)
    also have "\<dots> = 1 + length (str_split (dropWhile (\<lambda>d. \<not> is_space d) cs))"
      using "1.IH" [OF Cons] by simp
    finally show ?thesis by (subst str_split.simps) (simp add: Cons)
  qed
qed

lemma starts_set_Cons:
  "starts_set p (c # cs) =
     (if \<not> is_space c \<and> p then {0} else {}) \<union> Suc ` starts_set (is_space c) cs"
proof (rule set_eqI)
  fix i
  show "i \<in> starts_set p (c # cs) \<longleftrightarrow>
    i \<in> (if \<not> is_space c \<and> p then {0} else {}) \<union> Suc ` starts_set (is_space c) cs"
  proof (cases i)
    case 0
    then show ?thesis by (auto simp: starts_set_def)
  next
    case (Suc j)
    then show ?thesis by (cases j) (auto simp: starts_set_def image_iff)
  qed
qed

lemma finite_starts_set: "finite (starts_set p s)"
  by (simp add: starts_set_def)

lemma starts_card: "starts p s = card (starts_set p s)"
proof (induction s arbitrary: p)
  case Nil
  then show ?case by (simp add: starts_set_def)
next
  case (Cons c cs)
  have "card (starts_set p (c # cs)) =
      card (if \<not> is_space c \<and> p then {0::nat} else {}) + card (Suc ` starts_set (is_space c) cs)"
    unfolding starts_set_Cons
    by (rule card_Un_disjoint) (auto simp: finite_starts_set)
  also have "card (Suc ` starts_set (is_space c) cs) = card (starts_set (is_space c) cs)"
    by (simp add: card_image)
  finally show ?case using Cons.IH [of "is_space c"] by simp
qed

lemma token_count_eq: "length (str_split s) = token_count s"
proof -
  have "starts_set True s = token_starts s"
    by (auto simp: starts_set_def token_starts_def)
  then show ?thesis
    by (simp add: length_str_split starts_card token_count_def)
qed

lemma adjacent_iff:
  "(\<exists>pre post. xs = pre @ [a, b] @ post) \<longleftrightarrow> (\<exists>i. Suc i < length xs \<and> xs ! i = a \<and> xs ! Suc i = b)"
proof
  assume "\<exists>pre post. xs = pre @ [a, b] @ post"
  then obtain pre post where e: "xs = pre @ [a, b] @ post" by blast
  have "Suc (length pre) < length xs \<and> xs ! length pre = a \<and> xs ! Suc (length pre) = b"
    unfolding e by (simp add: nth_append)
  then show "\<exists>i. Suc i < length xs \<and> xs ! i = a \<and> xs ! Suc i = b" by blast
next
  assume "\<exists>i. Suc i < length xs \<and> xs ! i = a \<and> xs ! Suc i = b"
  then obtain i where i: "Suc i < length xs" "xs ! i = a" "xs ! Suc i = b" by blast
  have "xs = take i xs @ drop i xs" by simp
  also have "drop i xs = xs ! i # drop (Suc i) xs"
    using i(1) by (simp add: Cons_nth_drop_Suc)
  also have "drop (Suc i) xs = xs ! Suc i # drop (Suc (Suc i)) xs"
    using i(1) by (simp add: Cons_nth_drop_Suc)
  finally have "xs = take i xs @ [a, b] @ drop (Suc (Suc i)) xs"
    using i(2,3) by simp
  then show "\<exists>pre post. xs = pre @ [a, b] @ post" by blast
qed

lemma ascii_lower_m: "ascii_lower c = 109 \<longleftrightarrow> c = 109 \<or> c = 77"
  by (auto simp: ascii_lower_def)

lemma ascii_lower_y: "ascii_lower c = 121 \<longleftrightarrow> c = 121 \<or> c = 89"
  by (auto simp: ascii_lower_def)

lemma code_points_my: "code_points ''my'' = [109, 121]"
  by (simp add: code_points_def)

lemma contains_my_ascii:
  "str_contains (map ascii_lower t) (code_points ''my'') \<longleftrightarrow>
     (\<exists>i. Suc i < length t \<and> t ! i \<in> {109, 77} \<and> t ! Suc i \<in> {121, 89})"
proof -
  have "str_contains (map ascii_lower t) (code_points ''my'') \<longleftrightarrow>
      (\<exists>i. Suc i < length (map ascii_lower t) \<and> map ascii_lower t ! i = 109
         \<and> map ascii_lower t ! Suc i = 121)"
    by (simp only: str_contains_iff code_points_my adjacent_iff)
  also have "\<dots> \<longleftrightarrow> (\<exists>i. Suc i < length t \<and> ascii_lower (t ! i) = 109
         \<and> ascii_lower (t ! Suc i) = 121)"
    by auto
  finally show ?thesis
    by (simp add: ascii_lower_m ascii_lower_y)
qed

lemma str_split_sample:
  "str_split (code_points ''  Check out MY   channel '') =
     map code_points [''Check'', ''out'', ''MY'', ''channel'']"
  by (simp add: str_split.simps code_points_def is_space_def)

text \<open>
  Claim C7: for every data point \<open>x\<close>, its \<open>text\<close> any Python string,
  \<open>lf_contains_my x\<close> is \<open>1\<close> if \<open>my\<close> occurs as a substring of the lowercased
  text (the result of the builtin \<open>lower\<close> on the text) and \<open>-1\<close> otherwise. What
  lowercasing means is fixed where it is known without the Unicode tables: if the builtin
  lowers ASCII strings as Python does, then on an ASCII text the result is \<open>1\<close> exactly
  when an m or M is directly followed by a y or Y. \<open>lf_short_comment x\<close> is \<open>0\<close> if
  the text has fewer than 5 whitespace-separated tokens and \<open>-1\<close> otherwise. Both
  functions are total (they are functions of HOL, and \<open>str_split\<close> terminates), with
  results in \<open>{1, -1}\<close> and \<open>{0, -1}\<close>.
\<close>

theorem labeling_functions_spec:
  "lf_contains_my lower x =
     (if \<exists>pre post. lower (text_attr x) = pre @ code_points ''my'' @ post then 1 else - 1)
   \<and> ((\<forall>s. is_ascii s \<longrightarrow> lower s = lower_ascii s) \<and> is_ascii (text_attr x) \<longrightarrow>
        (lf_contains_my lower x = 1 \<longleftrightarrow>
           (\<exists>i. Suc i < length (text_attr x)
              \<and> text_attr x ! i \<in> {of_char CHR ''m'', of_char CHR ''M''}
              \<and> text_attr x ! Suc i \<in> {of_char CHR ''y'', of_char CHR ''Y''})))
   \<and> lf_short_comment x = (if token_count (text_attr x) < 5 then 0 else - 1)
   \<and> lf_contains_my lower x \<in> {1, - 1} \<and> lf_short_comment x \<in> {0, - 1}"
proof -
  have a: "lf_contains_my lower x =
     (if \<exists>pre post. lower (text_attr x) = pre @ code_points ''my'' @ post then 1 else - 1)"
    by (simp add: lf_contains_my_def str_contains_iff)
  have b: "lf_contains_my lower x = 1 \<longleftrightarrow>
           (\<exists>i. Suc i < length (text_attr x)
              \<and> text_attr x ! i \<in> {of_char CHR ''m'', of_char CHR ''M''}
              \<and> text_attr x ! Suc i \<in> {of_char CHR ''y'', of_char CHR ''Y''})"
    if "\<forall>s. is_ascii s \<longrightarrow> lower s = lower_ascii s" and "is_ascii (text_attr x)"
  proof -
    have "lower (text_attr x) = map ascii_lower (text_attr x)"
      using that by (simp add: lower_ascii_def)
    then have "lf_contains_my lower x = 1 \<longleftrightarrow>
        str_contains (map ascii_lower (text_attr x)) (code_points ''my'')"
      by (simp add: lf_contains_my_def)
    then show ?thesis
      by (simp add: contains_my_ascii)
  qed
  have c: "lf_short_comment x = (if token_count (text_attr x) < 5 then 0 else - 1)"
    by (simp add: lf_short_comment_def token_count_eq)
  have d: "lf_contains_my lower x \<in> {1, - 1}" "lf_short_comment x \<in> {0, - 1}"
    by (simp_all add: lf_contains_my_def lf_short_comment_def)
  from a b c d show ?thesis by blast
qed

theorem labeling_functions_spec_witness:
  "is_ascii (code_points ''Check out MY channel'')
   \<and> lf_contains_my lower_ascii \<lparr>text_attr = code_points ''Check out MY channel''\<rparr> = 1
   \<and> lf_contains_my lower_ascii \<lparr>text_attr = code_points ''nice video''\<rparr> = - 1
   \<and> lf_short_comment \<lparr>text_attr = code_points ''Check out MY channel''\<rparr> = 0
   \<and> lf_short_comment \<lparr>text_attr = code_points ''one two three four five''\<rparr> = - 1"
proof -
  let ?x = "\<lparr>text_attr = code_points ''Check out MY channel''\<rparr>"
  have h: "\<forall>s. is_ascii s \<longrightarrow> lower_ascii s = lower_ascii s" by simp
  have t: "is_ascii (text_attr ?x)" by (simp add: is_ascii_def code_points_def)
  have "Suc 10 < length (text_attr ?x) \<and> text_attr ?x ! 10 \<in> {of_char CHR ''m'', of_char CHR ''M''}
      \<and> text_attr ?x ! Suc 10 \<in> {of_char CHR ''y'', of_char CHR ''Y''}"
    by (simp add: code_points_def)
  then have e: "\<exists>i. Suc i < length (text_attr ?x)
      \<and> text_attr ?x ! i \<in> {of_char CHR ''m'', of_char CHR ''M''}
      \<and> text_attr ?x ! Suc i \<in> {of_char CHR ''y'', of_char CHR ''Y''}"
    by blast
  have 1: "lf_contains_my lower_ascii ?x = 1"
    using labeling_functions_spec [of lower_ascii ?x] h t e by blast
  have 2: "lf_contains_my lower_ascii \<lparr>text_attr = code_points ''nice video''\<rparr> = - 1"
    by (simp add: lf_contains_my_def lower_ascii_def ascii_lower_def code_points_def)
  have 3: "lf_short_comment ?x = 0"
    by (simp add: lf_short_comment_def length_str_split code_points_def is_space_def)
  have 4: "lf_short_comment \<lparr>text_attr = code_points ''one two three four five''\<rparr> = - 1"
    by (simp add: lf_short_comment_def length_str_split code_points_def is_space_def)
  from 1 2 3 4 t show ?thesis by simp
qed

section \<open>Exceptions raised by library calls\<close>

lemmas cell_defs = ch2_install_def ch2_stats_csv_def ch2_stats_tfrecord_def ch2_histogram_def
  ch5_semi_supervised_def ch5_active_learning_def ch5_weak_supervision_def ch5_augmentation_def
  ch5_seasonality_def ch3_feature_std_def ch3_scaling_def ch3_data_cleaning_def
  ch3_bucketizing_def ch3_feature_cross_def ch3_pca_def ch3_filter_methods_def
  ch3_univariate_selection_def ch3_rfe_def ch3_embedded_def ch3_tokenization_def
  ch4_schema_inference_def ch4_schema_validation_def ch4_drift_comparator_def
  ch4_feature_store_def

lemmas notebook_defs = chapter_02_def chapter_03_def chapter_04_def chapter_05_def

lemma and_then_raises: "raises m e w w' \<Longrightarrow> raises (and_then m f) e w w'"
  by (simp add: raises_def and_then_def)

lemma and_then_returns: "returns m a w wa \<Longrightarrow> and_then m f w = f a wa"
  by (simp add: returns_def and_then_def)

lemma no_handlers: "filter (\<lambda>c. Handler \<in> set (cell_constructs c)) all_cells = []"
  by (simp add: all_cells_def notebook_defs cell_constructs_def cell_defs)

lemma univariate_selection_propagates:
  "(raises (train_test_split L X y y ''0.2'') e w wa \<longrightarrow>
      raises (univariate_selection L X y) e w wa)
   \<and> (returns (train_test_split L X y y ''0.2'') (X_train, X_test, y_train, y_test) w wa \<longrightarrow>
     (raises (MinMaxScaler L) e wa wb \<longrightarrow> raises (univariate_selection L X y) e w wb)
     \<and> (returns (MinMaxScaler L) scaler wa wb \<longrightarrow>
       (raises (fit_transform L scaler X_train) e wb wc \<longrightarrow>
          raises (univariate_selection L X y) e w wc)
       \<and> (returns (fit_transform L scaler X_train) X_scaled wb wc \<longrightarrow>
         (raises (SelectKBest L (chi2 L) 10) e wc wd \<longrightarrow>
            raises (univariate_selection L X y) e w wd)
         \<and> (returns (SelectKBest L (chi2 L) 10) selector wc wd \<longrightarrow>
           (raises (fit L selector X_scaled y_train) e wd we \<longrightarrow>
              raises (univariate_selection L X y) e w we)
           \<and> (returns (fit L selector X_scaled y_train) fitted wd we \<longrightarrow>
             (raises (columns L X) e we wk \<longrightarrow> raises (univariate_selection L X y) e w wk)
             \<and> (returns (columns L X) cols we wk \<longrightarrow>
               (raises (get_support L selector) e wk wm \<longrightarrow>
                  raises (univariate_selection L X y) e w wm)
               \<and> (returns (get_support L selector) support wk wm \<longrightarrow>
                 univariate_selection L X y w = getitem L cols support wm)))))))"
  by (simp add: univariate_selection_def raises_def returns_def and_then_def)

lemma augment_propagates:
  "(raises (resize_with_crop_or_pad T x (height + 8) (width + 8)) e w wa \<longrightarrow>
      raises (augment T x height width num_channels) e w wa)
   \<and> (returns (resize_with_crop_or_pad T x (height + 8) (width + 8)) xa w wa \<longrightarrow>
     (raises (random_crop T xa [height, width, num_channels]) e wa wb \<longrightarrow>
        raises (augment T x height width num_channels) e w wb)
     \<and> (returns (random_crop T xa [height, width, num_channels]) xb wa wb \<longrightarrow>
        augment T x height width num_channels w = random_flip_left_right T xb wb))"
  by (simp add: augment_def raises_def returns_def and_then_def)

lemma stats_csv_cell_propagates:
  "(raises (import_tfdv D) e w wa \<longrightarrow> raises (stats_csv_cell D) (Raised e) (ns, w) (ns, wa))
   \<and> (returns (import_tfdv D) () w wa \<longrightarrow>
     (raises (generate_statistics_from_csv D ''your_data.csv'' '','') e wa wb \<longrightarrow>
        raises (stats_csv_cell D) (Raised e) (ns, w) (ns\<lparr>tfdv := True\<rparr>, wb))
     \<and> (returns (generate_statistics_from_csv D ''your_data.csv'' '','') s wa wb \<longrightarrow>
        returns (stats_csv_cell D) () (ns, w) (ns\<lparr>tfdv := True, stats := Some s\<rparr>, wb)))"
  by (simp add: stats_csv_cell_def raises_def returns_def and_then_def lib_call_def
      store_tfdv_def load_tfdv_def store_stats_def)

lemma stats_tfrecord_cell_propagates:
  "(\<not> tfdv ns \<longrightarrow> raises (stats_tfrecord_cell D) (NameError ''tfdv'') (ns, w) (ns, w))
   \<and> (tfdv ns \<longrightarrow>
     (raises (generate_statistics_from_tfrecord D ''your_data.tfrecord'') e w wa \<longrightarrow>
        raises (stats_tfrecord_cell D) (Raised e) (ns, w) (ns, wa))
     \<and> (returns (generate_statistics_from_tfrecord D ''your_data.tfrecord'') s w wa \<longrightarrow>
       (raises (visualize_statistics D s) e wa wb \<longrightarrow>
          raises (stats_tfrecord_cell D) (Raised e) (ns, w) (ns\<lparr>stats := Some s\<rparr>, wb))
       \<and> (returns (visualize_statistics D s) () wa wb \<longrightarrow>
          returns (stats_tfrecord_cell D) () (ns, w) (ns\<lparr>stats := Some s\<rparr>, wb))))"
  by (simp add: stats_tfrecord_cell_def raises_def returns_def and_then_def lib_call_def
      load_tfdv_def store_stats_def load_stats_def)

text \<open>
  Claim C3: no cell or snippet of the notebooks contains an exception handler, and an
  exception raised by a library call leaves the enclosing snippet unchanged. For
  \<open>univariate_selection\<close>, \<open>augment\<close> and the two statistics cells of chapter 2: if the
  calls before it return and a library call raises \<open>e\<close>, the snippet raises that same
  \<open>e\<close>, in the world the call left, and returns no value; only when every call returns
  does the snippet return, with the result of its last call. (At the top level of the
  notebook the exception of a library is \<open>Raised e\<close>, next to \<open>NameError\<close> of the
  interpreter for a name that is not bound.)
\<close>

theorem exceptions_propagate:
  "filter (\<lambda>c. Handler \<in> set (cell_constructs c)) all_cells = []
   \<and> ((raises (train_test_split L X y y ''0.2'') e w wa \<longrightarrow>
      raises (univariate_selection L X y) e w wa)
   \<and> (returns (train_test_split L X y y ''0.2'') (X_train, X_test, y_train, y_test) w wa \<longrightarrow>
     (raises (MinMaxScaler L) e wa wb \<longrightarrow> raises (univariate_selection L X y) e w wb)
     \<and> (returns (MinMaxScaler L) scaler wa wb \<longrightarrow>
       (raises (fit_transform L scaler X_train) e wb wc \<longrightarrow>
          raises (univariate_selection L X y) e w wc)
       \<and> (returns (fit_transform L scaler X_train) X_scaled wb wc \<longrightarrow>
         (raises (SelectKBest L (chi2 L) 10) e wc wd \<longrightarrow>
            raises (univariate_selection L X y) e w wd)
         \<and> (returns (SelectKBest L (chi2 L) 10) selector wc wd \<longrightarrow>
           (raises (fit L selector X_scaled y_train) e wd we \<longrightarrow>
              raises (univariate_selection L X y) e w we)
           \<and> (returns (fit L selector X_scaled y_train) fitted wd we \<longrightarrow>
             (raises (columns L X) e we wk \<longrightarrow> raises (univariate_selection L X y) e w wk)
             \<and> (returns (columns L X) cols we wk \<longrightarrow>
               (raises (get_support L selector) e wk wm \<longrightarrow>
                  raises (univariate_selection L X y) e w wm)
               \<and> (returns (get_support L selector) support wk wm \<longrightarrow>
                 univariate_selection L X y w = getitem L cols support wm))))))))
   \<and> ((raises (resize_with_crop_or_pad T x (height + 8) (width + 8)) e w wa \<longrightarrow>
      raises (augment T x height width num_channels) e w wa)
   \<and> (returns (resize_with_crop_or_pad T x (height + 8) (width + 8)) xa w wa \<longrightarrow>
     (raises (random_crop T xa [height, width, num_channels]) e wa wb \<longrightarrow>
        raises (augment T x height width num_channels) e w wb)
     \<and> (returns (random_crop T xa [height, width, num_channels]) xb wa wb \<longrightarrow>
        augment T x height width num_channels w = random_flip_left_right T xb wb)))
   \<and> ((raises (import_tfdv D) e w wa \<longrightarrow> raises (stats_csv_cell D) (Raised e) (ns, w) (ns, wa))
   \<and> (returns (import_tfdv D) () w wa \<longrightarrow>
     (raises (generate_statistics_from_csv D ''your_data.csv'' '','') e wa wb \<longrightarrow>
        raises (stats_csv_cell D) (Raised e) (ns, w) (ns\<lparr>tfdv := True\<rparr>, wb))
     \<and> (returns (generate_statistics_from_csv D ''your_data.csv'' '','') s wa wb \<longrightarrow>
        returns (stats_csv_cell D) () (ns, w) (ns\<lparr>tfdv := True, stats := Some s\<rparr>, wb))))
   \<and> ((\<not> tfdv ns \<longrightarrow> raises (stats_tfrecord_cell D) (NameError ''tfdv'') (ns, w) (ns, w))
   \<and> (tfdv ns \<longrightarrow>
     (raises (generate_statistics_from_tfrecord D ''your_data.tfrecord'') e w wa \<longrightarrow>
        raises (stats_tfrecord_cell D) (Raised e) (ns, w) (ns, wa))
     \<and> (returns (generate_statistics_from_tfrecord D ''your_data.tfrecord'') s w wa \<longrightarrow>
       (raises (visualize_statistics D s) e wa wb \<longrightarrow>
          raises (stats_tfrecord_cell D) (Raised e) (ns, w) (ns\<lparr>stats := Some s\<rparr>, wb))
       \<and> (returns (visualize_statistics D s) () wa wb \<longrightarrow>
          returns (stats_tfrecord_cell D) () (ns, w) (ns\<lparr>stats := Some s\<rparr>, wb)))))"
  by (rule conjI [OF no_handlers conjI [OF univariate_selection_propagates
        conjI [OF augment_propagates
          conjI [OF stats_csv_cell_propagates stats_tfrecord_cell_propagates]]]])

lemmas demo_defs = demo_sklearn_def demo_tf_image_def demo_tfdv_def demo_objects_def

theorem exceptions_propagate_witness:
  "raises (univariate_selection demo_sklearn 3 0) ''ValueError'' 0 5
   \<and> raises (augment demo_tf_image 3 40 40 3) ''InvalidArgumentError'' 0 2
   \<and> raises (stats_csv_cell demo_tfdv) (Raised ''NotFoundError'')
        (\<lparr>tfdv = False, stats = None\<rparr>, 0) (\<lparr>tfdv = True, stats = None\<rparr>, 2)
   \<and> raises (stats_tfrecord_cell demo_tfdv) (NameError ''tfdv'')
        (\<lparr>tfdv = False, stats = None\<rparr>, 0) (\<lparr>tfdv = False, stats = None\<rparr>, 0)
   \<and> returns (stats_tfrecord_cell demo_tfdv) ()
        (\<lparr>tfdv = True, stats = None\<rparr>, 2) (\<lparr>tfdv = True, stats = Some 7\<rparr>, 4)"
proof -
  note fail =
    exceptions_propagate [where L = demo_sklearn and X = 3 and y = 0 and w = 0 and wa = 1
      and X_train = 3 and X_test = 3 and y_train = 0 and y_test = 0 and wb = 2 and scaler = 0
      and X_scaled = 3 and wc = 3 and selector = 1 and wd = 4 and we = 5
      and e = "''ValueError''" and T = demo_tf_image and D = demo_tfdv
      and ns = "\<lparr>tfdv = False, stats = None\<rparr>"]
  note crop =
    exceptions_propagate [where T = demo_tf_image and x = 3 and height = 40 and width = 40
      and num_channels = 3 and w = 0 and wa = 1 and xa = 3 and wb = 2
      and e = "''InvalidArgumentError''" and L = demo_sklearn and D = demo_tfdv
      and ns = "\<lparr>tfdv = False, stats = None\<rparr>"]
  note csv =
    exceptions_propagate [where D = demo_tfdv and w = 0 and wa = 1 and wb = 2
      and e = "''NotFoundError''" and ns = "\<lparr>tfdv = False, stats = None\<rparr>"
      and L = demo_sklearn and T = demo_tf_image]
  note tfrecord =
    exceptions_propagate [where D = demo_tfdv and w = 2 and wa = 3 and wb = 4 and s = 7
      and e = "''unused''" and ns = "\<lparr>tfdv = True, stats = None\<rparr>"
      and L = demo_sklearn and T = demo_tf_image]
  have 1: "raises (univariate_selection demo_sklearn 3 0) ''ValueError'' 0 5"
    using fail by (simp add: demo_defs raises_def returns_def)
  have 2: "raises (augment demo_tf_image 3 40 40 3) ''InvalidArgumentError'' 0 2"
    using crop by (simp add: demo_defs raises_def returns_def)
  have 3: "raises (stats_csv_cell demo_tfdv) (Raised ''NotFoundError'')
        (\<lparr>tfdv = False, stats = None\<rparr>, 0) (\<lparr>tfdv = True, stats = None\<rparr>, 2)"
    using csv by (simp add: demo_defs raises_def returns_def)
  have 4: "raises (stats_tfrecord_cell demo_tfdv) (NameError ''tfdv'')
        (\<lparr>tfdv = False, stats = None\<rparr>, 0) (\<lparr>tfdv = False, stats = None\<rparr>, 0)"
    using csv by simp
  have 5: "returns (stats_tfrecord_cell demo_tfdv) ()
        (\<lparr>tfdv = True, stats = None\<rparr>, 2) (\<lparr>tfdv = True, stats = Some 7\<rparr>, 4)"
    using tfrecord by (simp add: demo_defs raises_def returns_def)
  from 1 2 3 4 5 show ?thesis by simp
qed

section \<open>Original logic in the cells\<close>

text \<open>
  Claim C1, as stated, at concrete cells: the weak supervision cell of chapter 5 defines
  two functions whose bodies are conditionals on predicates written in the notebook
  (\<open>lf_contains_my\<close> answers differently on two texts), and the feature cross snippet
  of chapter 3 builds \<open>hour_of_week\<close> by arithmetic of its own (\<open>1 * 24 + 10 = 34\<close>).
\<close>

theorem original_logic_counterexample:
  "cell_constructs ch5_weak_supervision = [Conditional, Predicate, Conditional, Predicate]
   \<and> cell_constructs ch3_feature_cross = [Arithmetic, Arithmetic]
   \<and> lf_contains_my lower_ascii \<lparr>text_attr = code_points ''my video''\<rparr> = 1
   \<and> lf_contains_my lower_ascii \<lparr>text_attr = code_points ''nice''\<rparr> = - 1
   \<and> hour_of_week 1 10 = 34"
proof -
  have "cell_constructs ch5_weak_supervision = [Conditional, Predicate, Conditional, Predicate]"
    by (simp add: cell_constructs_def cell_defs)
  moreover have "cell_constructs ch3_feature_cross = [Arithmetic, Arithmetic]"
    by (simp add: cell_constructs_def cell_defs)
  moreover have "lf_contains_my lower_ascii \<lparr>text_attr = code_points ''my video''\<rparr> = 1"
    by (simp add: lf_contains_my_def lower_ascii_def ascii_lower_def code_points_def)
  moreover have "lf_contains_my lower_ascii \<lparr>text_attr = code_points ''nice''\<rparr> = - 1"
    by (simp add: lf_contains_my_def lower_ascii_def ascii_lower_def code_points_def)
  moreover have "hour_of_week 1 10 = 34"
    by (simp add: hour_of_week_def int64_add_def int64_mul_def int64_wrap_def)
  ultimately show ?thesis by simp
qed

text \<open>
  Claim C1, amended: not every cell is free of original control logic. Of the 24 code
  cells and fenced snippets that hold a Python statement (4 in chapter 2, 11 in chapter 3,
  4 in chapter 4, 5 in chapter 5), 16 contain no conditional, arithmetic operation,
  comparison, loop, handler, suspension or resource block: all of chapter 2 and chapter 4,
  and chapter 3 except its data cleaning, feature cross and filter method snippets. The
  other 8 contain original logic: data cleaning one comparison, feature cross two
  arithmetic operations, filter methods one comparison; in chapter 5 the semi-supervised
  cell one comparison, the active learning cell one comparison and one arithmetic
  operation, the weak supervision cell two conditionals and two comparisons, the
  augmentation cell two arithmetic operations, the seasonality cell four arithmetic
  operations.
\<close>

theorem original_logic_inventory:
  "map length [chapter_02, chapter_03, chapter_04, chapter_05] = [4, 11, 4, 5]
   \<and> length all_cells = 24
   \<and> length (filter (\<lambda>c. cell_constructs c = []) all_cells) = 16
   \<and> map cell_constructs chapter_02 = [[], [], [], []]
   \<and> map cell_constructs chapter_03 =
       [[], [], [Predicate], [], [Arithmetic, Arithmetic], [], [Predicate], [], [], [], []]
   \<and> chapter_03 ! 2 = ch3_data_cleaning \<and> chapter_03 ! 4 = ch3_feature_cross
   \<and> chapter_03 ! 6 = ch3_filter_methods
   \<and> map cell_constructs chapter_04 = [[], [], [], []]
   \<and> chapter_05 =
       [ch5_semi_supervised, ch5_active_learning, ch5_weak_supervision, ch5_augmentation,
        ch5_seasonality]
   \<and> map cell_constructs chapter_05 =
       [[Predicate], [Predicate, Arithmetic], [Conditional, Predicate, Conditional, Predicate],
        [Arithmetic, Arithmetic], [Arithmetic, Arithmetic, Arithmetic, Arithmetic]]"
proof -
  have c2: "map cell_constructs chapter_02 = [[], [], [], []]"
    by (simp add: chapter_02_def cell_constructs_def cell_defs)
  have c3: "map cell_constructs chapter_03 =
       [[], [], [Predicate], [], [Arithmetic, Arithmetic], [], [Predicate], [], [], [], []]"
    by (simp add: chapter_03_def cell_constructs_def cell_defs)
  have c4: "map cell_constructs chapter_04 = [[], [], [], []]"
    by (simp add: chapter_04_def cell_constructs_def cell_defs)
  have c5: "map cell_constructs chapter_05 =
       [[Predicate], [Predicate, Arithmetic], [Conditional, Predicate, Conditional, Predicate],
        [Arithmetic, Arithmetic], [Arithmetic, Arithmetic, Arithmetic, Arithmetic]]"
    by (simp add: chapter_05_def cell_constructs_def cell_defs)
  have n: "map length [chapter_02, chapter_03, chapter_04, chapter_05] = [4, 11, 4, 5]"
    by (simp add: notebook_defs)
  have a: "length all_cells = 24"
    by (simp add: all_cells_def notebook_defs)
  have "map (\<lambda>c. cell_constructs c = []) all_cells =
      map (\<lambda>cs. cs = []) (map cell_constructs chapter_02 @ map cell_constructs chapter_03
        @ map cell_constructs chapter_04 @ map cell_constructs chapter_05)"
    by (simp add: all_cells_def)
  then have "length (filter (\<lambda>b. b) (map (\<lambda>c. cell_constructs c = []) all_cells)) = 16"
    unfolding c2 c3 c4 c5 by simp
  then have f: "length (filter (\<lambda>c. cell_constructs c = []) all_cells) = 16"
    by (simp add: filter_map comp_def)
  have i: "chapter_03 ! 2 = ch3_data_cleaning" "chapter_03 ! 4 = ch3_feature_cross"
    "chapter_03 ! 6 = ch3_filter_methods"
    by (simp_all add: chapter_03_def)
  have o: "chapter_05 =
       [ch5_semi_supervised, ch5_active_learning, ch5_weak_supervision, ch5_augmentation,
        ch5_seasonality]"
    by (rule chapter_05_def)
  from n a f c2 c3 i c4 c5 show ?thesis
    unfolding o [symmetric] by simp
qed

section \<open>Names shared between cells\<close>

lemmas ref_defs = cross_refs_def backward_refs_def cell_free_reads_def cell_binds_def
  enumerate_eq_zip upt_rec

text \<open>
  Claim C2, as stated, at a concrete notebook: in chapter 2 the cell that prints the
  histogram (cell 3, counting from 0) reads \<open>stats\<close>, which it does not bind; cells 1
  and 2 bind it. Cell 2 also reads \<open>tfdv\<close>, bound by the import in cell 1. Run on a
  namespace without \<open>stats\<close> the histogram cell raises \<open>NameError\<close>; after the
  statistics cell has bound \<open>stats\<close> it prints.
\<close>

theorem cross_refs_counterexample:
  "cross_refs chapter_02 = [(1, 2, ''tfdv''), (1, 3, ''stats''), (2, 3, ''stats'')]
   \<and> cell_free_reads ch2_histogram = [''print'', ''stats'']
   \<and> cell_binds ch2_histogram = []
   \<and> cell_binds ch2_stats_tfrecord = [''stats'']
   \<and> histogram_cell demo_objects (\<lparr>tfdv = False, stats = None\<rparr>, 0) =
       (Inl (NameError ''stats''), (\<lparr>tfdv = False, stats = None\<rparr>, 0))
   \<and> stats_tfrecord_cell demo_tfdv (\<lparr>tfdv = True, stats = None\<rparr>, 0) =
       (Inr (), (\<lparr>tfdv = True, stats = Some 7\<rparr>, 2))
   \<and> histogram_cell demo_objects (\<lparr>tfdv = True, stats = Some 7\<rparr>, 2) =
       (Inr (), (\<lparr>tfdv = True, stats = Some 7\<rparr>, 9))"
proof -
  have "cross_refs chapter_02 = [(1, 2, ''tfdv''), (1, 3, ''stats''), (2, 3, ''stats'')]"
    by (simp add: chapter_02_def ref_defs cell_defs)
  moreover have "cell_free_reads ch2_histogram = [''print'', ''stats'']"
    by (simp add: ref_defs cell_defs)
  moreover have "cell_binds ch2_histogram = []"
    by (simp add: ref_defs cell_defs)
  moreover have "cell_binds ch2_stats_tfrecord = [''stats'']"
    by (simp add: ref_defs cell_defs)
  moreover have "histogram_cell demo_objects (\<lparr>tfdv = False, stats = None\<rparr>, 0) =
       (Inl (NameError ''stats''), (\<lparr>tfdv = False, stats = None\<rparr>, 0))"
    by (simp add: histogram_cell_def and_then_def load_stats_def)
  moreover have "stats_tfrecord_cell demo_tfdv (\<lparr>tfdv = True, stats = None\<rparr>, 0) =
       (Inr (), (\<lparr>tfdv = True, stats = Some 7\<rparr>, 2))"
    by (simp add: stats_tfrecord_cell_def and_then_def lib_call_def load_tfdv_def
        store_stats_def load_stats_def demo_defs)
  moreover have "histogram_cell demo_objects (\<lparr>tfdv = True, stats = Some 7\<rparr>, 2) =
       (Inr (), (\<lparr>tfdv = True, stats = Some 7\<rparr>, 9))"
    by (simp add: histogram_cell_def and_then_def lib_call_def load_stats_def demo_defs)
  ultimately show ?thesis by simp
qed

text \<open>
  Claim C2, amended: a cell may use a variable defined in an earlier cell of the same
  notebook, and data flows between cells in narrative order only. In each of the four
  notebooks, no cell reads a name that the notebook binds but that neither the cell
  itself (before the read) nor an earlier cell binds. The uses that cross cells are, in
  chapter 5, \<open>y_missing\<close>, \<open>y\<close>, \<open>X\<close>, \<open>np\<close> and \<open>plt\<close> of the first cell (the
  last cell binds \<open>y\<close> again); in chapter 3, \<open>pd\<close>, \<open>X\<close> and \<open>df\<close>; in chapter 4,
  \<open>dataset_stats\<close>, \<open>schema\<close> and \<open>tfdv\<close>.
\<close>

theorem references_forward_only:
  "backward_refs chapter_02 = [] \<and> backward_refs chapter_03 = []
   \<and> backward_refs chapter_04 = [] \<and> backward_refs chapter_05 = []
   \<and> cross_refs chapter_05 =
       [(0, 1, ''y_missing''), (0, 1, ''y''), (0, 1, ''X''), (0, 1, ''np''), (0, 4, ''np''),
        (0, 4, ''plt''), (4, 1, ''y'')]
   \<and> cross_refs chapter_03 =
       [(1, 2, ''pd''), (1, 9, ''X''), (2, 6, ''df''), (3, 2, ''pd''), (4, 2, ''pd''),
        (4, 6, ''df''), (5, 9, ''X'')]
   \<and> cross_refs chapter_04 = [(0, 1, ''dataset_stats''), (0, 1, ''schema''), (0, 1, ''tfdv'')]"
proof -
  have "backward_refs chapter_02 = []"
    by (simp add: chapter_02_def ref_defs cell_defs)
  moreover have "backward_refs chapter_03 = []"
    by (simp add: chapter_03_def ref_defs cell_defs)
  moreover have "backward_refs chapter_04 = []"
    by (simp add: chapter_04_def ref_defs cell_defs)
  moreover have "backward_refs chapter_05 = []"
    by (simp add: chapter_05_def ref_defs cell_defs)
  moreover have "cross_refs chapter_05 =
       [(0, 1, ''y_missing''), (0, 1, ''y''), (0, 1, ''X''), (0, 1, ''np''), (0, 4, ''np''),
        (0, 4, ''plt''), (4, 1, ''y'')]"
    by (simp add: chapter_05_def ref_defs cell_defs)
  moreover have "cross_refs chapter_03 =
       [(1, 2, ''pd''), (1, 9, ''X''), (2, 6, ''df''), (3, 2, ''pd''), (4, 2, ''pd''),
        (4, 6, ''df''), (5, 9, ''X'')]"
    by (simp add: chapter_03_def ref_defs cell_defs)
  moreover have "cross_refs chapter_04 =
       [(0, 1, ''dataset_stats''), (0, 1, ''schema''), (0, 1, ''tfdv'')]"
    by (simp add: chapter_04_def ref_defs cell_defs)
  ultimately show ?thesis by simp
qed

section \<open>Feature selection and validation\<close>

text \<open>
  Claim C4, as stated, at a concrete snippet: the filter method of chapter 3 calls only
  \<open>corr\<close> and \<open>abs\<close>, none of the selection or validation entry points, and selects
  the features itself by the comparison \<open>cor_target > 0.8\<close> against a literal
  threshold.
\<close>

theorem filter_methods_counterexample:
  "cell_calls ch3_filter_methods = [''corr'', ''abs'']
   \<and> delegated_calls ch3_filter_methods = []
   \<and> cell_compares ch3_filter_methods = [(Name ''cor_target'', CmpGt, FloatLit ''0.8'')]"
  by (simp add: cell_calls_def delegated_calls_def cell_compares_def cell_defs)

text \<open>
  Claim C4, amended: feature selection and data validation are delegated to library
  calls in the univariate selection (\<open>SelectKBest\<close>), recursive feature elimination
  (\<open>RFE\<close>), embedded method (\<open>SelectFromModel\<close>) and schema validation
  (\<open>tfdv.validate_statistics\<close>) snippets, none of which contains a conditional,
  arithmetic or comparison of its own. The filter method snippet is the exception: it
  calls no selection routine and is a hand-written threshold test, one comparison of the
  absolute correlation with the target against \<open>0.8\<close>.
\<close>

theorem selection_delegation_inventory:
  "map (\<lambda>c. (delegated_calls c, cell_constructs c))
       [ch3_univariate_selection, ch3_rfe, ch3_embedded, ch4_schema_validation] =
     [([''SelectKBest''], []), ([''RFE''], []), ([''SelectFromModel''], []),
      ([''validate_statistics''], [])]
   \<and> (delegated_calls ch3_filter_methods, cell_constructs ch3_filter_methods) = ([], [Predicate])
   \<and> cell_compares ch3_filter_methods = [(Name ''cor_target'', CmpGt, FloatLit ''0.8'')]"
proof -
  have "map (\<lambda>c. (delegated_calls c, cell_constructs c))
       [ch3_univariate_selection, ch3_rfe, ch3_embedded, ch4_schema_validation] =
     [([''SelectKBest''], []), ([''RFE''], []), ([''SelectFromModel''], []),
      ([''validate_statistics''], [])]"
    by (simp add: cell_calls_def delegated_calls_def cell_constructs_def cell_defs)
  moreover have "(delegated_calls ch3_filter_methods, cell_constructs ch3_filter_methods) =
      ([], [Predicate])"
    by (simp add: cell_calls_def delegated_calls_def cell_constructs_def cell_defs)
  moreover have "cell_compares ch3_filter_methods =
      [(Name ''cor_target'', CmpGt, FloatLit ''0.8'')]"
    by (simp add: cell_compares_def cell_defs)
  ultimately show ?thesis by simp
qed

section \<open>Sequential execution\<close>

text \<open>
  Claim C6, as stated, at a concrete cell: the first code cell of chapter 2 is the shell
  escape \<open>!pip install tensorflow-data-validation\<close>, which starts a child process.
\<close>

theorem shell_escape_counterexample:
  "ch2_install = [Shell ''pip install tensorflow-data-validation'']
   \<and> cell_shell_lines ch2_install = [''pip install tensorflow-data-validation'']
   \<and> cell_starts_process ch2_install"
  by (simp add: cell_starts_process_def cell_shell_lines_def ch2_install_def)

text \<open>
  Claim C6, amended: the code of the notebooks is sequential, single-shot execution but
  for one shell escape. The only line handed to the shell is
  \<open>pip install tensorflow-data-validation\<close> in the first cell of chapter 2, and it is
  the only cell that starts a process. No cell contains a loop, an \<open>await\<close> or
  \<open>yield\<close>, or a \<open>with\<close> block. The packages imported are pandas,
  tensorflow_hub, tensorflow_text, tensorflow_data_validation, matplotlib, numpy, sklearn,
  snorkel and tensorflow: none of the modules listed in \<open>concurrency_modules\<close>, which
  start threads or processes or schedule coroutines. No cell calls a function with one of
  the names listed in \<open>concurrency_calls\<close>, by which a thread or process is started,
  waited for or suspended, or a resource opened or closed.
\<close>

theorem sequential_inventory:
  "map cell_shell_lines chapter_02 = [[''pip install tensorflow-data-validation''], [], [], []]
   \<and> concat (map cell_shell_lines (chapter_03 @ chapter_04 @ chapter_05)) = []
   \<and> filter cell_starts_process all_cells = [ch2_install]
   \<and> filter (\<lambda>c. list_ex (\<lambda>k. k \<in> set [Loop, Suspension, Resource]) (cell_constructs c))
         all_cells = []
   \<and> remdups (map module_root (concat (map cell_imports all_cells))) =
       [''pandas'', ''tensorflow_hub'', ''tensorflow_text'', ''tensorflow_data_validation'',
        ''matplotlib'', ''numpy'', ''sklearn'', ''snorkel'', ''tensorflow'']
   \<and> filter (\<lambda>m. module_root m \<in> set concurrency_modules)
         (concat (map cell_imports all_cells)) = []
   \<and> filter (\<lambda>n. n \<in> set concurrency_calls) (concat (map cell_calls all_cells)) = []"
proof -
  have 1: "map cell_shell_lines chapter_02 =
      [[''pip install tensorflow-data-validation''], [], [], []]"
    by (simp add: chapter_02_def cell_shell_lines_def cell_defs)
  have 2: "concat (map cell_shell_lines (chapter_03 @ chapter_04 @ chapter_05)) = []"
    by (simp add: notebook_defs cell_shell_lines_def cell_defs)
  have 3: "filter cell_starts_process all_cells = [ch2_install]"
    by (simp add: all_cells_def notebook_defs cell_starts_process_def cell_shell_lines_def
        cell_calls_def cell_defs)
  have 4: "filter (\<lambda>c. list_ex (\<lambda>k. k \<in> set [Loop, Suspension, Resource]) (cell_constructs c))
         all_cells = []"
    by (simp add: all_cells_def notebook_defs cell_constructs_def cell_defs)
  have 5: "remdups (map module_root (concat (map cell_imports all_cells))) =
       [''pandas'', ''tensorflow_hub'', ''tensorflow_text'', ''tensorflow_data_validation'',
        ''matplotlib'', ''numpy'', ''sklearn'', ''snorkel'', ''tensorflow'']"
    by (simp add: all_cells_def notebook_defs cell_imports_def module_root_def cell_defs)
  have 6: "filter (\<lambda>m. module_root m \<in> set concurrency_modules)
         (concat (map cell_imports all_cells)) = []"
    by (simp add: all_cells_def notebook_defs cell_imports_def module_root_def
        concurrency_modules_def cell_defs)
  have 7: "filter (\<lambda>n. n \<in> set concurrency_calls) (concat (map cell_calls all_cells)) = []"
    by (simp add: all_cells_def notebook_defs cell_calls_def concurrency_calls_def cell_defs)
  from 1 2 3 4 5 6 7 show ?thesis by simp
qed

end
